theory Spec2Isabelle
  imports Main "HOL-Library.Sublist" "HOL-Library.AList" "HOL-Library.Word"
begin

text \<open>
  The backend loader of LocalAI (package \<open>model\<close>: \<open>backendsInAssetDir\<close>,
  \<open>selectGRPCProcess\<close>, \<open>grpcModel\<close>, \<open>BackendLoader\<close>, \<open>GreedyLoader\<close>) as functions of
  Isabelle/HOL, and the properties of the discovery of backends, of the selection of a
  variant, of the start of a backend and of the greedy load that hold of them.
  The file system, the hardware and the backend processes are parameters; what a load
  does to the outside is kept as a list of events in the state.
\<close>

section \<open>Strings and paths of the Go standard library\<close>

text \<open>
  Go strings are byte sequences; they are modelled as \<open>string\<close> (a list of bytes).
  \<open>strings.Contains(s, substr)\<close> is the contiguous-sublist test and
  \<open>strings.HasSuffix(s, suffix)\<close> the suffix test.
\<close>

definition Contains :: "string \<Rightarrow> string \<Rightarrow> bool" where
  "Contains s substr = sublist substr s"

definition HasSuffix :: "string \<Rightarrow> string \<Rightarrow> bool" where
  "HasSuffix s suf = suffix suf s"

text \<open>
  \<open>strings.ToLower(s)\<close>, as the library has it. A string whose bytes are all below
  \<open>utf8.RuneSelf\<close> (128) is lowered byte by byte: \<open>A\<close> .. \<open>Z\<close> (65 .. 90) are moved to
  \<open>a\<close> .. \<open>z\<close> and every other byte is kept. A string with a byte from 128 on is handed
  to \<open>strings.Map(unicode.ToLower, s)\<close>, which decodes the string as UTF-8 and maps every
  rune through the case tables of the Unicode library (\<open>U+00C0\<close> to \<open>U+00E0\<close>, \<open>U+0130\<close>
  to \<open>i\<close>, \<open>U+212A\<close> to \<open>k\<close>, ...). The tables are data of the library; that function
  is the parameter \<open>mapLower\<close>, of which nothing is assumed.
\<close>

definition isASCII :: "char \<Rightarrow> bool" where
  "isASCII c = ((of_char c :: nat) < 128)"

definition lowerASCII :: "char \<Rightarrow> char" where
  "lowerASCII c =
     (let n = of_char c :: nat in if 65 \<le> n \<and> n \<le> 90 then char_of (n + 32) else c)"

definition ToLower :: "(string \<Rightarrow> string) \<Rightarrow> string \<Rightarrow> string" where
  "ToLower mapLower s = (if list_all isASCII s then map lowerASCII s else mapLower s)"

text \<open>\<open>strings.Join(elems, sep)\<close>.\<close>

fun joinWith :: "string \<Rightarrow> string list \<Rightarrow> string" where
  "joinWith sep [] = []"
| "joinWith sep [x] = x"
| "joinWith sep (x # y # ys) = x @ sep @ joinWith sep (y # ys)"

text \<open>The elements of a path between its separators (\<open>/\<close>).\<close>

fun splitPath :: "string \<Rightarrow> string list" where
  "splitPath [] = [[]]"
| "splitPath (c # cs) =
     (if c = CHR ''/'' then [] # splitPath cs
      else (case splitPath cs of [] \<Rightarrow> [[c]] | x # xs \<Rightarrow> (c # x) # xs))"

text \<open>
  \<open>filepath.Clean\<close>, element by element. The second list is the output so far, last
  element first. An empty element and \<open>.\<close> are dropped; \<open>..\<close> removes the last
  element of the output when that is a real element, is dropped at the root of a rooted
  path, and is kept otherwise.
\<close>

fun cleanElems :: "bool \<Rightarrow> string list \<Rightarrow> string list \<Rightarrow> string list" where
  "cleanElems rooted [] out = rev out"
| "cleanElems rooted (e # es) out =
     (if e = [] \<or> e = ''.'' then cleanElems rooted es out
      else if e = ''..'' then
        (case out of
           [] \<Rightarrow> if rooted then cleanElems rooted es [] else cleanElems rooted es [e]
         | t # ts \<Rightarrow> if t \<noteq> ''..'' then cleanElems rooted es ts
                    else cleanElems rooted es (e # out))
      else cleanElems rooted es (e # out))"

definition Clean :: "string \<Rightarrow> string" where
  "Clean path =
     (if path = [] then ''.''
      else
        (let rooted = (hd path = CHR ''/'');
             out = (if rooted then ''/'' else []) @ joinWith ''/'' (cleanElems rooted (splitPath path) [])
         in if out = [] then ''.'' else out))"

text \<open>
  \<open>filepath.Join\<close>: the elements from the first non-empty one on, joined by the
  separator and cleaned; the empty string when every element is empty.
\<close>

definition Join :: "string list \<Rightarrow> string" where
  "Join elem =
     (case dropWhile (\<lambda>e. e = []) elem of
        [] \<Rightarrow> []
      | e # es \<Rightarrow> Clean (joinWith ''/'' (e # es)))"

section \<open>Backend names\<close>

definition LlamaGGML :: string where "LlamaGGML = ''llama-ggml''"
definition LLamaCPP :: string where "LLamaCPP = ''llama-cpp''"
definition LLamaCPPAVX2 :: string where "LLamaCPPAVX2 = ''llama-cpp-avx2''"
definition LLamaCPPAVX :: string where "LLamaCPPAVX = ''llama-cpp-avx''"
definition LLamaCPPFallback :: string where "LLamaCPPFallback = ''llama-cpp-fallback''"
definition LLamaCPPCUDA :: string where "LLamaCPPCUDA = ''llama-cpp-cuda''"
definition LLamaCPPHipblas :: string where "LLamaCPPHipblas = ''llama-cpp-hipblas''"
definition LLamaCPPSycl16 :: string where "LLamaCPPSycl16 = ''llama-cpp-sycl_16''"
definition LLamaCPPSycl32 :: string where "LLamaCPPSycl32 = ''llama-cpp-sycl_32''"
definition LLamaCPPGRPC :: string where "LLamaCPPGRPC = ''llama-cpp-grpc''"
definition BertEmbeddingsBackend :: string where "BertEmbeddingsBackend = ''bert-embeddings''"
definition PiperBackend :: string where "PiperBackend = ''piper''"
definition LCHuggingFaceBackend :: string where "LCHuggingFaceBackend = ''huggingface''"
definition LocalStoreBackend :: string where "LocalStoreBackend = ''local-store''"

text \<open>The alias table \<open>Aliases\<close>.\<close>

definition Aliases :: "(string \<times> string) list" where
  "Aliases =
     [(''go-llama'', LLamaCPP),
      (''llama'', LLamaCPP),
      (''embedded-store'', LocalStoreBackend),
      (''langchain-huggingface'', LCHuggingFaceBackend)]"

definition backendPath :: "string \<Rightarrow> string \<Rightarrow> string" where
  "backendPath assetDir backend = Join [assetDir, ''backend-assets'', ''grpc'', backend]"

section \<open>Errors\<close>

text \<open>
  A Go \<open>error\<close> value: a message (\<open>errors.New\<close>, \<open>fmt.Errorf\<close> without \<open>%w\<close>, and
  the errors of the operating system and of libraries), a message that wraps another
  error (\<open>fmt.Errorf(prefix + "%w", err)\<close>), or the join of several errors
  (\<open>errors.Join\<close>). A possibly \<open>nil\<close> error is an \<open>error option\<close>.
\<close>

datatype error =
    Err string
  | Wrapf string error
  | Joined "error list"

text \<open>\<open>err.Error()\<close>: a joined error prints its members, one per line.\<close>

fun errorText :: "error \<Rightarrow> string" where
  "errorText (Err s) = s"
| "errorText (Wrapf p e) = p @ errorText e"
| "errorText (Joined es) = joinWith [CHR 0x0A] (map errorText es)"

text \<open>\<open>errors.Join\<close> discards \<open>nil\<close> arguments and returns \<open>nil\<close> when none is left.\<close>

definition errorsJoin :: "error option list \<Rightarrow> error option" where
  "errorsJoin errs =
     (let es = List.map_filter id errs in if es = [] then None else Some (Joined es))"

section \<open>The system around the loader\<close>

record dirEntry =
  Name :: string
  IsDir :: bool

text \<open>
  \<open>os.Stat\<close> returns no error, an error for which \<open>os.IsNotExist\<close> holds, or another
  error (a permission, say).
\<close>

datatype statResult = StatOk | StatNotExist | StatOtherError

section \<open>Options, handles and the loader's state\<close>

text \<open>
  The fields of \<open>pb.ModelOptions\<close> and of \<open>pb.Result\<close> that the loader reads or writes.
\<close>

record pbModelOptions =
  Model :: string
  ModelFile :: string
  F16Memory :: bool
  LibrarySearchPath :: string

record pbResult =
  Success :: bool
  Message :: string

text \<open>
  The fields of \<open>Options\<close> used by the loader. \<open>gRPCOptions\<close> is a pointer: the
  object it points to lives in the \<open>heap\<close> of the state, since \<open>BackendLoader\<close> writes
  through it. \<open>externalBackends\<close> is a Go map, kept as an association list with one
  pair per key (\<open>map_of\<close> is the lookup); its order is the order in which \<open>range\<close>
  yields its pairs. \<open>grpcAttempts\<close> and \<open>grpcAttemptsDelay\<close> are of Go's type \<open>int\<close>,
  which has 64 bits on the platforms the program is built for; \<open>sint\<close> reads their
  value. The context of the options is not modelled.
\<close>

record Options =
  backendString :: string
  model :: string
  threads :: "32 word"
  assetDir :: string
  gRPCOptions :: nat
  externalBackends :: "(string \<times> string) list"
  grpcAttempts :: "64 word"
  grpcAttemptsDelay :: "64 word"
  singleActiveBackend :: bool
  parallelRequests :: bool

text \<open>
  A handle \<open>*Model\<close> as \<open>NewModel(ID, address, process)\<close> builds it; \<open>process\<close> is
  \<open>nil\<close> for a backend that is only an address. \<open>m.GRPC(parallel, wd)\<close> is the client
  bound to the handle's address.
\<close>

record Model =
  ID :: string
  address :: string
  process :: "nat option"

definition NewModel :: "string \<Rightarrow> string \<Rightarrow> nat option \<Rightarrow> Model" where
  "NewModel modelName serverAddress proc =
     \<lparr>ID = modelName, address = serverAddress, process = proc\<rparr>"

datatype Backend = Client string bool

definition GRPC :: "Model \<Rightarrow> bool \<Rightarrow> Backend" where
  "GRPC m par = Client (address m) par"

text \<open>
  What the loader does to the outside, in order: a call of \<open>ml.startProcess\<close> (executable,
  model, address, extra arguments), a health-check RPC (address), a call of \<open>time.Sleep\<close>
  with its argument, a \<open>time.Duration\<close> (an \<open>int64\<close> number of nanoseconds), a call of
  \<open>ml.deleteProcess\<close> (model), a call of \<open>ml.StopGRPC(allExcept(model))\<close>, and a
  load-model RPC (address, options). Log lines are not modelled.
\<close>

datatype event =
    StartProcess string string string "string list"
  | HealthChecked string
  | Slept "64 word"
  | DeleteProcess string
  | StopAllExcept string
  | LoadModelCalled string pbModelOptions

text \<open>
  The state a load works on: the registry \<open>ml.models\<close>, the process environment, the
  objects behind \<open>gRPCOptions\<close> pointers, the events so far, and the number of calls
  made so far to the outside (port allocation, process start, RPCs), which indexes
  their answers.
\<close>

record state =
  models :: "string \<rightharpoonup> Model"
  env :: "string \<Rightarrow> string"
  heap :: "nat \<Rightarrow> pbModelOptions"
  events :: "event list"
  tick :: nat

text \<open>
  What the loader reads from outside and cannot change: the package variable
  \<open>autoDetect\<close> (fixed at start-up from \<open>DISABLE_AUTODETECT\<close>), the file system
  (\<open>os.ReadDir\<close>, \<open>os.Stat\<close>), the hardware probes (\<open>xsysinfo.GPUs\<close> with each card's
  \<open>String()\<close>, \<open>xsysinfo.HasCPUCaps\<close> for AVX2 and AVX), the order in which
  \<open>range\<close> yields the entries of the map \<open>backends\<close> (Go leaves it unspecified), and
  the function \<open>strings.Map(unicode.ToLower, s)\<close> of the library with its case tables
  (\<open>unicodeLower\<close>, used by \<open>strings.ToLower\<close> on strings that are not ASCII), and
  the answers of the outside to the \<open>n\<close>-th call: \<open>freeport.GetFreePort\<close>, the result of
  \<open>ml.startProcess\<close>, and the two RPCs \<open>HealthCheck\<close> and \<open>LoadModel\<close>.
  The file system and the hardware are taken as fixed during one call.

  Of this repository but not among the sources at hand, and therefore parameters:
  \<open>utils.VerifyPath(path, base)\<close> (\<open>None\<close> is \<open>nil\<close>), \<open>library.LoadLDSO\<close>, the field
  \<open>ml.ModelPath\<close>, the model file that \<open>ml.LoadModel\<close> hands to its loader, and the
  defaults that \<open>NewOptions\<close> starts from.
\<close>

record system =
  autoDetect :: bool
  ReadDir :: "string \<Rightarrow> error + dirEntry list"
  Stat :: "string \<Rightarrow> statResult"
  GPUs :: "error + string list"
  HasAVX2 :: bool
  HasAVX :: bool
  rangeOrder :: "(string \<times> string list) list \<Rightarrow> (string \<times> string list) list"
  unicodeLower :: "string \<Rightarrow> string"
  VerifyPath :: "string \<Rightarrow> string \<Rightarrow> error option"
  LoadLDSO :: "string \<Rightarrow> string list \<Rightarrow> string \<Rightarrow> string list \<times> string"
  ModelPath :: string
  modelFileOf :: "string \<Rightarrow> string"
  defaultOptions :: Options
  GetFreePort :: "nat \<Rightarrow> error + nat"
  startProcess :: "nat \<Rightarrow> string \<Rightarrow> string \<Rightarrow> string \<Rightarrow> string list \<Rightarrow> error + nat"
  HealthCheck :: "nat \<Rightarrow> string \<Rightarrow> bool \<times> error option"
  rpcLoadModel :: "nat \<Rightarrow> string \<Rightarrow> pbModelOptions \<Rightarrow> error + pbResult"

section \<open>backendsInAssetDir\<close>

text \<open>
  The Go map \<open>backends\<close> is an association list with one pair per key
  (\<open>AList.update\<close> is the assignment \<open>backends[k] = v\<close>, \<open>map_of\<close> the lookup); the
  position of a pair in the list has no meaning for a Go map.
\<close>

type_synonym backendMap = "(string \<times> string list) list"

definition excludeBackends :: "string list" where
  "excludeBackends = [LocalStoreBackend]"

text \<open>The first loop over the directory entries (label \<open>ENTRY\<close>).\<close>

fun scanEntries :: "bool \<Rightarrow> dirEntry list \<Rightarrow> backendMap \<Rightarrow> backendMap" where
  "scanEntries ad [] backends = backends"
| "scanEntries ad (e # es) backends =
     (if Name e \<in> set excludeBackends then scanEntries ad es backends
      else if IsDir e then scanEntries ad es backends
      else if HasSuffix (Name e) ''.log'' then scanEntries ad es backends
      else if Contains (Name e) LLamaCPP \<and> \<not> Contains (Name e) LLamaCPPFallback \<and> ad
        then scanEntries ad es backends
      else scanEntries ad es (AList.update (Name e) [] backends))"

text \<open>The eight \<open>found...\<close> flags of the second loop.\<close>

record found =
  foundLCPPAVX :: bool
  foundLCPPAVX2 :: bool
  foundLCPPFallback :: bool
  foundLCPPGRPC :: bool
  foundLCPPCuda :: bool
  foundLCPPHipblas :: bool
  foundSycl16 :: bool
  foundSycl32 :: bool

definition noneFound :: found where
  "noneFound =
     \<lparr>foundLCPPAVX = False, foundLCPPAVX2 = False, foundLCPPFallback = False,
      foundLCPPGRPC = False, foundLCPPCuda = False, foundLCPPHipblas = False,
      foundSycl16 = False, foundSycl32 = False\<rparr>"

text \<open>\<open>backends[LLamaCPP] = append(backends[LLamaCPP], v)\<close>; a missing key reads as \<open>nil\<close>.\<close>

definition appendVariant :: "string \<Rightarrow> backendMap \<Rightarrow> backendMap" where
  "appendVariant v backends =
     AList.update LLamaCPP
       ((case map_of backends LLamaCPP of None \<Rightarrow> [] | Some vs \<Rightarrow> vs) @ [v]) backends"

text \<open>The body of the second loop: eight tests in the order of the source.\<close>

definition foldEntry :: "dirEntry \<Rightarrow> backendMap \<times> found \<Rightarrow> backendMap \<times> found" where
  "foldEntry e s0 =
     (let n = Name e;
          s1 = (case s0 of (b, f) \<Rightarrow>
                  if Contains n LLamaCPPAVX2 \<and> \<not> foundLCPPAVX2 f
                  then (appendVariant LLamaCPPAVX2 b, f\<lparr>foundLCPPAVX2 := True\<rparr>) else (b, f));
          s2 = (case s1 of (b, f) \<Rightarrow>
                  if Contains n LLamaCPPAVX \<and> \<not> foundLCPPAVX f
                  then (appendVariant LLamaCPPAVX b, f\<lparr>foundLCPPAVX := True\<rparr>) else (b, f));
          s3 = (case s2 of (b, f) \<Rightarrow>
                  if Contains n LLamaCPPFallback \<and> \<not> foundLCPPFallback f
                  then (appendVariant LLamaCPPFallback b, f\<lparr>foundLCPPFallback := True\<rparr>) else (b, f));
          s4 = (case s3 of (b, f) \<Rightarrow>
                  if Contains n LLamaCPPGRPC \<and> \<not> foundLCPPGRPC f
                  then (appendVariant LLamaCPPGRPC b, f\<lparr>foundLCPPGRPC := True\<rparr>) else (b, f));
          s5 = (case s4 of (b, f) \<Rightarrow>
                  if Contains n LLamaCPPCUDA \<and> \<not> foundLCPPCuda f
                  then (appendVariant LLamaCPPCUDA b, f\<lparr>foundLCPPCuda := True\<rparr>) else (b, f));
          s6 = (case s5 of (b, f) \<Rightarrow>
                  if Contains n LLamaCPPHipblas \<and> \<not> foundLCPPHipblas f
                  then (appendVariant LLamaCPPHipblas b, f\<lparr>foundLCPPHipblas := True\<rparr>) else (b, f));
          s7 = (case s6 of (b, f) \<Rightarrow>
                  if Contains n LLamaCPPSycl16 \<and> \<not> foundSycl16 f
                  then (appendVariant LLamaCPPSycl16 b, f\<lparr>foundSycl16 := True\<rparr>) else (b, f));
          s8 = (case s7 of (b, f) \<Rightarrow>
                  if Contains n LLamaCPPSycl32 \<and> \<not> foundSycl32 f
                  then (appendVariant LLamaCPPSycl32 b, f\<lparr>foundSycl32 := True\<rparr>) else (b, f))
      in s8)"

text \<open>
  The map \<open>backends\<close> when both loops are done: with auto-detection, and when the first
  loop left no key \<open>llama-cpp\<close>, the second loop runs over all entries.
\<close>

definition discover :: "bool \<Rightarrow> dirEntry list \<Rightarrow> backendMap" where
  "discover ad entry =
     (let backends = scanEntries ad entry [] in
      if ad then
        (if map_of backends LLamaCPP = None
         then fst (foldl (\<lambda>s e. foldEntry e s) (backends, noneFound) entry)
         else backends)
      else backends)"

definition priorityList :: "string list" where
  "priorityList = [LLamaCPP, LlamaGGML, LLamaCPPFallback]"

definition toTheEnd :: "string list" where
  "toTheEnd = [LCHuggingFaceBackend, BertEmbeddingsBackend]"

text \<open>
  The ordered map \<open>orderedBackends\<close> keeps its keys in the order of their first
  \<open>Set\<close>; a \<open>Set\<close> on a key it holds replaces the value in place. This is
  \<open>AList.update\<close>, and \<open>Keys()\<close> is \<open>map fst\<close>. The three loops that fill it:
  \<open>rng\<close> is the sequence of pairs that \<open>range backends\<close> yields.
\<close>

definition addPresent :: "backendMap \<Rightarrow> backendMap \<Rightarrow> string \<Rightarrow> backendMap" where
  "addPresent backends ordered p =
     (case map_of backends p of Some v \<Rightarrow> AList.update p v ordered | None \<Rightarrow> ordered)"

definition addOther :: "backendMap \<Rightarrow> string \<times> string list \<Rightarrow> backendMap" where
  "addOther ordered kv =
     (if fst kv \<notin> set toTheEnd then
        (if map_of ordered (fst kv) = None then AList.update (fst kv) (snd kv) ordered
         else ordered)
      else ordered)"

definition orderBackends :: "backendMap \<Rightarrow> backendMap \<Rightarrow> string list" where
  "orderBackends backends rng =
     (let o1 = foldl (addPresent backends) [] priorityList;
          o2 = foldl addOther o1 rng;
          o3 = foldl (addPresent backends) o2 toTheEnd
      in map fst o3)"

definition backendsInAssetDir :: "system \<Rightarrow> string \<Rightarrow> error + string list" where
  "backendsInAssetDir sys dir =
     (case ReadDir sys (backendPath dir []) of
        Inl err \<Rightarrow> Inl err
      | Inr entry \<Rightarrow>
          (let backends = discover (autoDetect sys) entry
           in Inr (orderBackends backends (rangeOrder sys backends))))"

section \<open>selectGRPCProcess\<close>

text \<open>The local variables that the loop over the GPUs assigns.\<close>

record gpuScan =
  grpcProcess :: string
  foundCUDA :: bool
  foundAMDGPU :: bool
  foundIntelGPU :: bool

text \<open>The body of the loop over the GPUs: three tests on the card's \<open>String()\<close>.\<close>

definition gpuStep :: "system \<Rightarrow> string \<Rightarrow> bool \<Rightarrow> string \<Rightarrow> gpuScan \<Rightarrow> gpuScan" where
  "gpuStep sys dir f16 gpu v0 =
     (let v1 = (if Contains gpu ''nvidia'' then
                  (let p = backendPath dir LLamaCPPCUDA in
                   if Stat sys p = StatOk then v0\<lparr>grpcProcess := p, foundCUDA := True\<rparr> else v0)
                else v0);
          v2 = (if Contains gpu ''amd'' then
                  (let p = backendPath dir LLamaCPPHipblas in
                   if Stat sys p = StatOk then v1\<lparr>grpcProcess := p, foundAMDGPU := True\<rparr> else v1)
                else v1);
          v3 = (if Contains gpu ''intel'' then
                  (let backend = (if \<not> f16 then LLamaCPPSycl32 else LLamaCPPSycl16);
                       p = backendPath dir backend in
                   if Stat sys p = StatOk then v2\<lparr>grpcProcess := p, foundIntelGPU := True\<rparr> else v2)
                else v2)
      in v3)"

definition selectGRPCProcess ::
  "system \<Rightarrow> (string \<Rightarrow> string) \<Rightarrow> string \<Rightarrow> string \<Rightarrow> bool \<Rightarrow> string" where
  "selectGRPCProcess sys getenv backend dir f16 =
     (if backend \<noteq> LLamaCPP then []
      else if getenv ''LLAMACPP_GRPC_SERVERS'' \<noteq> [] then backendPath dir LLamaCPPGRPC
      else
        (let v0 = \<lparr>grpcProcess = [], foundCUDA = False, foundAMDGPU = False, foundIntelGPU = False\<rparr>;
             v = (case GPUs sys of
                    Inr gpus \<Rightarrow> foldl (\<lambda>v gpu. gpuStep sys dir f16 gpu v) v0 gpus
                  | Inl err \<Rightarrow> v0)
         in if foundCUDA v \<or> foundAMDGPU v \<or> foundIntelGPU v then grpcProcess v
            else if HasAVX2 sys then
              (let p = backendPath dir LLamaCPPAVX2 in
               if Stat sys p = StatOk then p else grpcProcess v)
            else if HasAVX sys then
              (let p = backendPath dir LLamaCPPAVX in
               if Stat sys p = StatOk then p else grpcProcess v)
            else
              (let p = backendPath dir LLamaCPPFallback in
               if Stat sys p = StatOk then p else grpcProcess v)))"

section \<open>grpcModel\<close>

text \<open>\<open>fmt.Sprintf("%d", n)\<close> for a port number.\<close>

fun showNat :: "nat \<Rightarrow> string" where
  "showNat n =
     (if n < 10 then [''0123456789'' ! n]
      else showNat (n div 10) @ [''0123456789'' ! (n mod 10)])"

declare showNat.simps [simp del]

text \<open>
  \<open>os.Setenv\<close> fails, leaving the environment as it is, on an empty key, on a key with
  \<open>=\<close> or a NUL byte, and on a value with a NUL byte.
\<close>

definition Setenv :: "string \<Rightarrow> string \<Rightarrow> (string \<Rightarrow> string) \<Rightarrow> (string \<Rightarrow> string) option" where
  "Setenv key val e =
     (if key = [] \<or> CHR ''='' \<in> set key \<or> CHR 0x00 \<in> set key \<or> CHR 0x00 \<in> set val
      then None else Some (e(key := val)))"

text \<open>
  The loop over \<open>HF_HOME\<close>, \<open>TRANSFORMERS_CACHE\<close> and \<open>HUGGINGFACE_HUB_CACHE\<close>: a
  variable that reads as empty is set to \<open>ml.ModelPath\<close>; a failure is only logged.
\<close>

definition setCacheEnv :: "string \<Rightarrow> state \<Rightarrow> state" where
  "setCacheEnv modelPath s =
     foldl (\<lambda>s name.
              if env s name = [] then
                (case Setenv name modelPath (env s) of
                   None \<Rightarrow> s
                 | Some e \<Rightarrow> s\<lparr>env := e\<rparr>)
              else s)
       s [''HF_HOME'', ''TRANSFORMERS_CACHE'', ''HUGGINGFACE_HUB_CACHE'']"

text \<open>The closure \<open>getFreeAddress\<close>.\<close>

definition getFreeAddress :: "system \<Rightarrow> state \<Rightarrow> state \<times> (error + string)" where
  "getFreeAddress sys s =
     (case GetFreePort sys (tick s) of
        Inl err \<Rightarrow>
          (s\<lparr>tick := tick s + 1\<rparr>, Inl (Err (''failed allocating free ports: '' @ errorText err)))
      | Inr port \<Rightarrow> (s\<lparr>tick := tick s + 1\<rparr>, Inr (''127.0.0.1:'' @ showNat port)))"

text \<open>
  Modelled from the spec: \<open>ml.startProcess\<close> is not among the sources. The spec has it
  spawn the process with the resolved executable, the target model path, the allocated
  address and the extra arguments, and fail with a hard error. The call is recorded as
  an event; whether it succeeds is the outside's answer.
\<close>

definition startProcessCall ::
  "system \<Rightarrow> string \<Rightarrow> string \<Rightarrow> string \<Rightarrow> string list \<Rightarrow> state \<Rightarrow> state \<times> (error + nat)" where
  "startProcessCall sys path modelID serverAddress args s =
     (s\<lparr>events := events s @ [StartProcess path modelID serverAddress args], tick := tick s + 1\<rparr>,
      startProcess sys (tick s) path modelID serverAddress args)"

text \<open>\<open>client.GRPC(...).HealthCheck(ctx)\<close>: the pair \<open>(alive, err)\<close>.\<close>

definition healthCheckCall :: "system \<Rightarrow> Model \<Rightarrow> state \<Rightarrow> state \<times> (bool \<times> error option)" where
  "healthCheckCall sys client s =
     (s\<lparr>events := events s @ [HealthChecked (address client)], tick := tick s + 1\<rparr>,
      HealthCheck sys (tick s) (address client))"

text \<open>\<open>client.GRPC(...).LoadModel(ctx, &options)\<close>: an error, or the result.\<close>

definition loadModelCall ::
  "system \<Rightarrow> Model \<Rightarrow> pbModelOptions \<Rightarrow> state \<Rightarrow> state \<times> (error + pbResult)" where
  "loadModelCall sys client options s =
     (s\<lparr>events := events s @ [LoadModelCalled (address client) options], tick := tick s + 1\<rparr>,
      rpcLoadModel sys (tick s) (address client) options)"

text \<open>
  Modelled from the spec: \<open>ml.deleteProcess\<close> is not among the sources. It is the
  registry's \<open>delete(name)\<close> of the spec: the handle of that name is removed from the
  registry (removing an absent name changes nothing). The call is recorded as an event.
\<close>

definition deleteProcess :: "string \<Rightarrow> state \<Rightarrow> state" where
  "deleteProcess name s =
     s\<lparr>models := (models s)(name := None), events := events s @ [DeleteProcess name]\<rparr>"

text \<open>
  Lines 483 to 544: the handle of the backend, spawned or only addressed. The state
  is returned with what was done before an error, too.
\<close>

definition startBackend ::
  "system \<Rightarrow> string \<Rightarrow> Options \<Rightarrow> string \<Rightarrow> state \<Rightarrow> state \<times> (error + Model)" where
  "startBackend sys backend opt modelName s =
     (case map_of (externalBackends opt) backend of
        Some uri \<Rightarrow>
          (if Stat sys uri = StatOk then
             (case getFreeAddress sys s of
                (s1, Inl err) \<Rightarrow>
                  (s1, Inl (Err (''failed allocating free ports: '' @ errorText err)))
              | (s1, Inr serverAddress) \<Rightarrow>
                  (case startProcessCall sys uri (model opt) serverAddress [] s1 of
                     (s2, Inl err) \<Rightarrow> (s2, Inl err)
                   | (s2, Inr proc) \<Rightarrow> (s2, Inr (NewModel modelName serverAddress (Some proc)))))
           else (s, Inr (NewModel modelName uri None)))
      | None \<Rightarrow>
          (let grpcProcess0 = backendPath (assetDir opt) backend in
           case VerifyPath sys grpcProcess0 (assetDir opt) of
             Some err \<Rightarrow>
               (s, Inl (Err (''refering to a backend not in asset dir: '' @ errorText err)))
           | None \<Rightarrow>
               (let selectedProcess =
                      selectGRPCProcess sys (env s) backend (assetDir opt)
                        (F16Memory (heap s (gRPCOptions opt)));
                    grpcProcess1 =
                      (if autoDetect sys \<and> selectedProcess \<noteq> [] then selectedProcess
                       else grpcProcess0)
                in if Stat sys grpcProcess1 = StatNotExist
                   then (s, Inl (Err (''backend not found: '' @ grpcProcess1)))
                   else
                     (case getFreeAddress sys s of
                        (s1, Inl err) \<Rightarrow>
                          (s1, Inl (Err (''failed allocating free ports: '' @ errorText err)))
                      | (s1, Inr serverAddress) \<Rightarrow>
                          (case LoadLDSO sys (assetDir opt) [] grpcProcess1 of
                             (args, grpcProcess2) \<Rightarrow>
                               (case startProcessCall sys grpcProcess2 (model opt) serverAddress args s1 of
                                  (s2, Inl err) \<Rightarrow> (s2, Inl err)
                                | (s2, Inr proc) \<Rightarrow>
                                    (s2, Inr (NewModel modelName serverAddress (Some proc)))))))))"

text \<open>
  Lines 548 to 561, the loop \<open>for i := 0; i < o.grpcAttempts; i++\<close>: \<open>n\<close> is the number
  of iterations still to run and the result is \<open>ready\<close>. An attempt that is not alive is
  followed by \<open>time.Sleep(time.Duration(o.grpcAttemptsDelay) * time.Second)\<close>, the last
  one too. The argument is the product of the delay and \<open>time.Second\<close> (1000000000
  nanoseconds) in \<open>int64\<close>, where the multiplication wraps.
\<close>

definition Second :: "64 word" where
  "Second = 1000000000"

fun waitReady :: "system \<Rightarrow> Options \<Rightarrow> Model \<Rightarrow> nat \<Rightarrow> state \<Rightarrow> state \<times> bool" where
  "waitReady sys opt client 0 s = (s, False)"
| "waitReady sys opt client (Suc n) s =
     (case healthCheckCall sys client s of
        (s1, (alive, err)) \<Rightarrow>
          if alive then (s1, True)
          else waitReady sys opt client n (s1\<lparr>events := events s1 @ [Slept (grpcAttemptsDelay opt * Second)]\<rparr>))"

text \<open>Lines 569 to 585: the load-model RPC on the copy of the options.\<close>

definition loadOnBackend ::
  "system \<Rightarrow> Options \<Rightarrow> Model \<Rightarrow> string \<Rightarrow> string \<Rightarrow> state \<Rightarrow> state \<times> (error + Model)" where
  "loadOnBackend sys opt client modelName modelFile s =
     (let options = (heap s (gRPCOptions opt))\<lparr>Model := modelName, ModelFile := modelFile\<rparr> in
      case loadModelCall sys client options s of
        (s1, Inl err) \<Rightarrow>
          (deleteProcess (model opt) s1, Inl (Wrapf ''could not load model: '' err))
      | (s1, Inr res) \<Rightarrow>
          if \<not> Success res
          then (deleteProcess (model opt) s1,
                Inl (Err (''could not load model (no success): '' @ Message res)))
          else (s1, Inr client))"

text \<open>
  The closure that \<open>grpcModel(backend, opt)\<close> returns, applied to the state. The loop
  counter \<open>i\<close> starts at 0 and runs while \<open>i < o.grpcAttempts\<close>, a signed comparison:
  \<open>nat (sint (grpcAttempts opt))\<close> iterations when no attempt is alive, none for a
  negative bound.
\<close>

definition grpcModel ::
  "system \<Rightarrow> string \<Rightarrow> Options \<Rightarrow> string \<Rightarrow> string \<Rightarrow> state \<Rightarrow> state \<times> (error + Model)" where
  "grpcModel sys backend opt modelName modelFile s =
     (case startBackend sys backend opt modelName (setCacheEnv (ModelPath sys) s) of
        (s1, Inl err) \<Rightarrow> (s1, Inl err)
      | (s1, Inr client) \<Rightarrow>
          (case waitReady sys opt client (nat (sint (grpcAttempts opt))) s1 of
             (s2, ready) \<Rightarrow>
               if \<not> ready
               then (deleteProcess (model opt) s2, Inl (Err ''grpc service not ready''))
               else loadOnBackend sys opt client modelName modelFile s2))"

section \<open>The registry\<close>

text \<open>
  Modelled from the spec: \<open>ml.CheckIsLoaded\<close> is not among the sources. It is the
  registry's \<open>checkLoaded(name) -> handleOrNil\<close> of the spec, idempotent and without
  side effects.
\<close>

definition CheckIsLoaded :: "state \<Rightarrow> string \<Rightarrow> Model option" where
  "CheckIsLoaded s name = models s name"

text \<open>
  Modelled from the spec: \<open>ml.LoadModel\<close> is not among the sources. By the spec a load
  request for a model that is already registered short-circuits and returns the existing
  handle without re-spawning; otherwise the loader runs and, when it succeeds, its handle
  is registered under the model name.
\<close>

definition LoadModel ::
  "system \<Rightarrow> string \<Rightarrow> (string \<Rightarrow> string \<Rightarrow> state \<Rightarrow> state \<times> (error + Model)) \<Rightarrow> state
     \<Rightarrow> state \<times> (error + Model)" where
  "LoadModel sys modelName loader s =
     (case CheckIsLoaded s modelName of
        Some m \<Rightarrow> (s, Inr m)
      | None \<Rightarrow>
          (case loader modelName (modelFileOf sys modelName) s of
             (s1, Inl err) \<Rightarrow> (s1, Inl err)
           | (s1, Inr m) \<Rightarrow> (s1\<lparr>models := (models s1)(modelName \<mapsto> m)\<rparr>, Inr m)))"

text \<open>
  Modelled from the spec: \<open>ml.StopGRPC(allExcept(name))\<close> is not among the sources. It
  is the registry's \<open>stopAllExcept(name)\<close> of the spec: every handle but the named one is
  evicted. Its error is only logged by the callers and is not modelled. The call is
  recorded as an event.
\<close>

definition StopGRPC_allExcept :: "string \<Rightarrow> state \<Rightarrow> state" where
  "StopGRPC_allExcept name s =
     s\<lparr>models := (\<lambda>k. if k = name then models s k else None),
       events := events s @ [StopAllExcept name]\<rparr>"

section \<open>NewOptions and the option setters\<close>

text \<open>
  Modelled from the spec: \<open>NewOptions\<close> and the \<open>With...\<close> setters are not among the
  sources. An option is a function on \<open>Options\<close>; \<open>NewOptions\<close> applies the options, in
  order, to the defaults. Each setter assigns the field of the load options it is named
  after; \<open>WithExternalBackend\<close> assigns one key of the address table.
\<close>

type_synonym Option_t = "Options \<Rightarrow> Options"

definition NewOptions :: "system \<Rightarrow> Option_t list \<Rightarrow> Options" where
  "NewOptions sys opts = foldl (\<lambda>opt f. f opt) (defaultOptions sys) opts"

definition WithBackendString :: "string \<Rightarrow> Option_t" where
  "WithBackendString b opt = opt\<lparr>backendString := b\<rparr>"

definition WithModel :: "string \<Rightarrow> Option_t" where
  "WithModel m opt = opt\<lparr>model := m\<rparr>"

definition WithLoadGRPCLoadModelOpts :: "nat \<Rightarrow> Option_t" where
  "WithLoadGRPCLoadModelOpts p opt = opt\<lparr>gRPCOptions := p\<rparr>"

definition WithThreads :: "32 word \<Rightarrow> Option_t" where
  "WithThreads t opt = opt\<lparr>threads := t\<rparr>"

definition WithAssetDir :: "string \<Rightarrow> Option_t" where
  "WithAssetDir a opt = opt\<lparr>assetDir := a\<rparr>"

definition WithExternalBackend :: "string \<Rightarrow> string \<Rightarrow> Option_t" where
  "WithExternalBackend name uri opt = opt\<lparr>externalBackends := AList.update name uri (externalBackends opt)\<rparr>"

section \<open>BackendLoader\<close>

text \<open>
  Lines 602 to 606: the requested name through \<open>strings.ToLower\<close>, then through the alias
  table.
\<close>

definition resolveBackend :: "system \<Rightarrow> string \<Rightarrow> string" where
  "resolveBackend sys requested =
     (let backend = ToLower (unicodeLower sys) requested in
      case map_of Aliases backend of Some realBackend \<Rightarrow> realBackend | None \<Rightarrow> backend)"

text \<open>
  \<open>BackendLoader\<close> on the options that \<open>NewOptions(opts...)\<close> gave. The result is the
  pair \<open>(client, err)\<close>, \<open>None\<close> for \<open>nil\<close>.
\<close>

definition BackendLoader ::
  "system \<Rightarrow> Options \<Rightarrow> state \<Rightarrow> state \<times> (Backend option \<times> error option)" where
  "BackendLoader sys opt s =
     (let backend = resolveBackend sys (backendString opt);
          s1 = (if singleActiveBackend opt then StopGRPC_allExcept (model opt) s else s);
          s2 = (if backend = PiperBackend
                then s1\<lparr>heap := (heap s1)
                       (gRPCOptions opt := (heap s1 (gRPCOptions opt))
                          \<lparr>LibrarySearchPath := Join [assetDir opt, ''backend-assets'', ''espeak-ng-data'']\<rparr>)\<rparr>
                else s1);
          backendToConsume = (if backend = PiperBackend then PiperBackend else backend)
      in case LoadModel sys (model opt) (grpcModel sys backendToConsume opt) s2 of
           (s3, Inl err) \<Rightarrow> (s3, (None, Some err))
         | (s3, Inr m) \<Rightarrow> (s3, (Some (GRPC m (parallelRequests opt)), None)))"

section \<open>GreedyLoader\<close>

text \<open>A call returns its results or panics.\<close>

datatype 'a outcome = Panic | Return 'a

text \<open>The options that the loop builds for the candidate \<open>key\<close>.\<close>

definition candidateOptions :: "Options \<Rightarrow> string \<Rightarrow> Option_t list" where
  "candidateOptions opt key =
     [WithBackendString key, WithModel (model opt), WithLoadGRPCLoadModelOpts (gRPCOptions opt),
      WithThreads (threads opt), WithAssetDir (assetDir opt)] @
     map (\<lambda>(k, v). WithExternalBackend k v) (externalBackends opt)"

text \<open>
  Lines 701 to 717, the choice of \<open>backendToUse\<close>: the loop goes on to the next
  candidate (\<open>continue\<close>), or \<open>BackendLoader\<close> is called once more with the name chosen.
\<close>

datatype retry = Continue | RetryWith string

definition chooseFallback :: "system \<Rightarrow> string \<Rightarrow> retry" where
  "chooseFallback sys dir =
     (if HasAVX2 sys then
        RetryWith (if Stat sys (backendPath dir LLamaCPPAVX2) = StatOk then LLamaCPPAVX2 else [])
      else if HasAVX sys then
        RetryWith (if Stat sys (backendPath dir LLamaCPPAVX2) = StatOk then LLamaCPPAVX else [])
      else if Stat sys (backendPath dir LLamaCPPFallback) = StatOk then RetryWith LLamaCPPFallback
      else Continue)"

text \<open>
  The loop over the candidates with the error \<open>err\<close> joined so far, and the statement
  after it: \<open>err.Error()\<close> on a \<open>nil\<close> error is a nil dereference, and so is
  \<open>modelerr.Error()\<close> in the retry when \<open>modelerr\<close> is \<open>nil\<close>.
\<close>

fun greedyLoop ::
  "system \<Rightarrow> Options \<Rightarrow> string list \<Rightarrow> error option \<Rightarrow> state
     \<Rightarrow> state \<times> (Backend option \<times> error option) outcome" where
  "greedyLoop sys opt [] err s =
     (case err of
        None \<Rightarrow> (s, Panic)
      | Some e \<Rightarrow>
          (s, Return (None,
                Some (Err (''could not load model - all backends returned error: '' @ errorText e)))))"
| "greedyLoop sys opt (key # rest) err s =
     (case BackendLoader sys (NewOptions sys (candidateOptions opt key)) s of
        (s1, (Some m, None)) \<Rightarrow> (s1, Return (Some m, None))
      | (s1, (m, modelerr)) \<Rightarrow>
          (let err1 =
                 (case modelerr of
                    Some e \<Rightarrow> errorsJoin [err, Some (Wrapf (''['' @ key @ '']: '') e)]
                  | None \<Rightarrow>
                      errorsJoin [err, Some (Err (''backend '' @ key @ '' returned no usable model''))])
           in if autoDetect sys \<and> key = LLamaCPP \<and> err1 \<noteq> None then
                (case chooseFallback sys (assetDir opt) of
                   Continue \<Rightarrow> greedyLoop sys opt rest err1 s1
                 | RetryWith backendToUse \<Rightarrow>
                     (case BackendLoader sys
                             (NewOptions sys (candidateOptions opt key @ [WithBackendString backendToUse])) s1 of
                        (s2, (Some m2, None)) \<Rightarrow> (s2, Return (Some m2, None))
                      | (s2, (m2, Some e2)) \<Rightarrow>
                          greedyLoop sys opt rest
                            (errorsJoin [err1, Some (Wrapf (''['' @ key @ '']: '') e2)]) s2
                      | (s2, (None, None)) \<Rightarrow> (s2, Panic)))
              else greedyLoop sys opt rest err1 s1))"

definition GreedyLoader ::
  "system \<Rightarrow> Options \<Rightarrow> state \<Rightarrow> state \<times> (Backend option \<times> error option) outcome" where
  "GreedyLoader sys opt s =
     (case CheckIsLoaded s (model opt) of
        Some m \<Rightarrow> (s, Return (Some (GRPC m (parallelRequests opt)), None))
      | None \<Rightarrow>
          (let s1 = (if singleActiveBackend opt then StopGRPC_allExcept (model opt) s else s) in
           case backendsInAssetDir sys (assetDir opt) of
             Inl err \<Rightarrow> (s1, Return (None, Some err))
           | Inr autoLoadBackends \<Rightarrow>
               greedyLoop sys opt (autoLoadBackends @ map snd (externalBackends opt)) None s1))"

section \<open>Notions used to state and prove the properties\<close>

subsection \<open>Discovery\<close>

text \<open>
  The entries that the first loop of \<open>backendsInAssetDir\<close> records: those that pass its
  four \<open>continue\<close> tests.
\<close>

definition listed :: "bool \<Rightarrow> dirEntry \<Rightarrow> bool" where
  "listed ad e \<longleftrightarrow>
     Name e \<notin> set excludeBackends \<and> \<not> IsDir e \<and> \<not> HasSuffix (Name e) ''.log'' \<and>
     \<not> (Contains (Name e) LLamaCPP \<and> \<not> Contains (Name e) LLamaCPPFallback \<and> ad)"

text \<open>The variant names in the order in which the second loop tests them on one entry.\<close>

definition variantChecks :: "string list" where
  "variantChecks =
     [LLamaCPPAVX2, LLamaCPPAVX, LLamaCPPFallback, LLamaCPPGRPC,
      LLamaCPPCUDA, LLamaCPPHipblas, LLamaCPPSycl16, LLamaCPPSycl32]"

text \<open>
  The discovered names as the specification has them (4.1), in the order of the
  directory: sub-directories and log files are skipped; with auto-detection a file of
  the \<open>llama-cpp\<close> name family other than the fallback build is not a name of its own,
  and the files of the family are folded into the one name \<open>llama-cpp\<close>; the
  internal-only backend \<open>local-store\<close> is excluded.
\<close>

definition claimedDiscovered :: "bool \<Rightarrow> dirEntry list \<Rightarrow> string list" where
  "claimedDiscovered ad entry =
     (let files = filter (\<lambda>e. \<not> IsDir e \<and> \<not> HasSuffix (Name e) ''.log'') entry;
          own = filter (\<lambda>n. n \<notin> set excludeBackends \<and>
                             \<not> (ad \<and> Contains n LLamaCPP \<and> \<not> Contains n LLamaCPPFallback))
                  (map Name files)
      in own @ (if ad \<and> list_ex (\<lambda>e. Contains (Name e) LLamaCPP) files then [LLamaCPP] else []))"

text \<open>A list without its repetitions: of each element the first occurrence stays.\<close>

fun firstSeen :: "'a list \<Rightarrow> 'a list" where
  "firstSeen [] = []"
| "firstSeen (x # xs) = x # filter (\<lambda>y. y \<noteq> x) (firstSeen xs)"

text \<open>
  The order of the member variants as the specification has it, and the member list
  it describes for a directory: the variants that some entry name contains, in that
  order.
\<close>

definition claimedVariantOrder :: "string list" where
  "claimedVariantOrder =
     [LLamaCPPCUDA, LLamaCPPHipblas, LLamaCPPSycl16, LLamaCPPSycl32,
      LLamaCPPAVX2, LLamaCPPAVX, LLamaCPPFallback, LLamaCPPGRPC]"

definition claimedVariants :: "dirEntry list \<Rightarrow> string list" where
  "claimedVariants entry =
     filter (\<lambda>v. list_ex (\<lambda>e. Contains (Name e) v) entry) claimedVariantOrder"

text \<open>
  For the proofs: the member list of \<open>llama-cpp\<close> in a map, the flags that belong to a
  member list, and the second loop written on the map alone.
\<close>

definition variantsOf :: "backendMap \<Rightarrow> string list" where
  "variantsOf b = (case map_of b LLamaCPP of None \<Rightarrow> [] | Some vs \<Rightarrow> vs)"

definition flagsOf :: "string list \<Rightarrow> found" where
  "flagsOf vs =
     \<lparr>foundLCPPAVX = LLamaCPPAVX \<in> set vs, foundLCPPAVX2 = LLamaCPPAVX2 \<in> set vs,
      foundLCPPFallback = LLamaCPPFallback \<in> set vs, foundLCPPGRPC = LLamaCPPGRPC \<in> set vs,
      foundLCPPCuda = LLamaCPPCUDA \<in> set vs, foundLCPPHipblas = LLamaCPPHipblas \<in> set vs,
      foundSycl16 = LLamaCPPSycl16 \<in> set vs, foundSycl32 = LLamaCPPSycl32 \<in> set vs\<rparr>"

definition addNew :: "bool \<Rightarrow> string \<Rightarrow> backendMap \<Rightarrow> backendMap" where
  "addNew c v b = (if c \<and> v \<notin> set (variantsOf b) then appendVariant v b else b)"

definition addAll :: "string \<Rightarrow> backendMap \<Rightarrow> backendMap" where
  "addAll n b = foldl (\<lambda>b v. addNew (Contains n v) v b) b variantChecks"

definition matches :: "dirEntry list \<Rightarrow> string list" where
  "matches entry = concat (map (\<lambda>e. filter (Contains (Name e)) variantChecks) entry)"

definition addEntries :: "dirEntry list \<Rightarrow> backendMap \<Rightarrow> backendMap" where
  "addEntries es b = foldl (\<lambda>b e. addAll (Name e) b) b es"

subsection \<open>Paths and the selection of a variant\<close>

text \<open>
  A name that is one element of a path, and the last element of a path (what follows
  its last separator).
\<close>

definition simpleName :: "string \<Rightarrow> bool" where
  "simpleName v \<longleftrightarrow> v \<noteq> [] \<and> CHR ''/'' \<notin> set v \<and> v \<noteq> ''.'' \<and> v \<noteq> ''..''"

definition baseName :: "string \<Rightarrow> string" where
  "baseName p = rev (takeWhile (\<lambda>c. c \<noteq> CHR ''/'') (rev p))"



subsection \<open>Loading\<close>

text \<open>
  The nanoseconds waited according to a list of events. \<open>time.Sleep(d)\<close> pauses for at
  least the duration \<open>d\<close>, read as a signed number, and returns at once when \<open>d\<close> is
  zero or negative.
\<close>

fun waited :: "event list \<Rightarrow> int" where
  "waited [] = 0"
| "waited (Slept d # es) = max 0 (sint d) + waited es"
| "waited (e # es) = waited es"

text \<open>
  The executable that \<open>grpcModel\<close> looks for when the backend is not external: the
  variant that \<open>selectGRPCProcess\<close> selected, when auto-detection is on and it selected
  one, and the path of the backend otherwise.
\<close>

definition resolvedProcess :: "system \<Rightarrow> Options \<Rightarrow> string \<Rightarrow> state \<Rightarrow> string" where
  "resolvedProcess sys opt backend s =
     (let selectedProcess =
            selectGRPCProcess sys (env s) backend (assetDir opt) (F16Memory (heap s (gRPCOptions opt)))
      in if autoDetect sys \<and> selectedProcess \<noteq> [] then selectedProcess
         else backendPath (assetDir opt) backend)"

text \<open>
  What the loop of \<open>GreedyLoader\<close> does with the results of the retry: return the client,
  or go on with the remaining candidates and the error joined.
\<close>

definition thenRest ::
  "system \<Rightarrow> Options \<Rightarrow> string list \<Rightarrow> error option \<Rightarrow> string
     \<Rightarrow> state \<times> (Backend option \<times> error option)
     \<Rightarrow> state \<times> (Backend option \<times> error option) outcome" where
  "thenRest sys opt rest err key r =
     (case r of
        (s2, (Some m2, None)) \<Rightarrow> (s2, Return (Some m2, None))
      | (s2, (m2, Some e2)) \<Rightarrow>
          greedyLoop sys opt rest (errorsJoin [err, Some (Wrapf (''['' @ key @ '']: '') e2)]) s2
      | (s2, (None, None)) \<Rightarrow> (s2, Panic))"

text \<open>
  The retry variant as the specification has it: AVX2, then AVX, then the plain
  fallback, the first whose file is present on disk.
\<close>

definition claimedRetryVariant :: "system \<Rightarrow> string \<Rightarrow> string option" where
  "claimedRetryVariant sys dir =
     find (\<lambda>v. Stat sys (backendPath dir v) = StatOk)
       [LLamaCPPAVX2, LLamaCPPAVX, LLamaCPPFallback]"

subsection \<open>Example inputs\<close>

definition exampleVariantDir :: "dirEntry list" where
  "exampleVariantDir =
     [\<lparr>Name = ''llama-cpp-avx2'', IsDir = False\<rparr>, \<lparr>Name = ''llama-cpp-cuda'', IsDir = False\<rparr>]"

definition exampleDir :: "dirEntry list" where
  "exampleDir =
     [\<lparr>Name = ''bert-embeddings'', IsDir = False\<rparr>,
      \<lparr>Name = ''huggingface'', IsDir = False\<rparr>,
      \<lparr>Name = ''llama-cpp-avx2'', IsDir = False\<rparr>,
      \<lparr>Name = ''llama-cpp-fallback'', IsDir = False\<rparr>,
      \<lparr>Name = ''llama-ggml'', IsDir = False\<rparr>,
      \<lparr>Name = ''local-store'', IsDir = False\<rparr>,
      \<lparr>Name = ''python'', IsDir = True\<rparr>,
      \<lparr>Name = ''whisper'', IsDir = False\<rparr>,
      \<lparr>Name = ''whisper.log'', IsDir = False\<rparr>]"

definition exampleDefaults :: Options where
  "exampleDefaults =
     \<lparr>backendString = [], model = [], threads = 0, assetDir = [], gRPCOptions = 0,
      externalBackends = [], grpcAttempts = 20, grpcAttemptsDelay = 2,
      singleActiveBackend = False, parallelRequests = False\<rparr>"

text \<open>
  A machine with AVX2 and no GPU, the asset directory \<open>/a\<close> holding \<open>exampleDir\<close>, and
  backends that start but never answer the health check. The names of the examples are
  ASCII, so that \<open>strings.ToLower\<close> never consults \<open>unicodeLower\<close>; it is left as the
  identity here.
\<close>

definition exampleSystem :: system where
  "exampleSystem =
     \<lparr>autoDetect = True,
      ReadDir = (\<lambda>p. if p = ''/a/backend-assets/grpc'' then Inr exampleDir
                      else Inl (Err ''no such file or directory'')),
      Stat = (\<lambda>p. if p \<in> set (map (\<lambda>e. ''/a/backend-assets/grpc/'' @ Name e) exampleDir)
                   then StatOk else StatNotExist),
      GPUs = Inr [],
      HasAVX2 = True,
      HasAVX = True,
      rangeOrder = rev,
      unicodeLower = (\<lambda>s. s),
      VerifyPath = (\<lambda>p b. None),
      LoadLDSO = (\<lambda>a args p. (args, p)),
      ModelPath = ''/models'',
      modelFileOf = (\<lambda>n. ''/models/'' @ n),
      defaultOptions = exampleDefaults,
      GetFreePort = (\<lambda>n. Inr (50000 + n)),
      startProcess = (\<lambda>n p m a args. Inr n),
      HealthCheck = (\<lambda>n a. (False, Some (Err ''connection refused''))),
      rpcLoadModel = (\<lambda>n a opts. Inr \<lparr>Success = True, Message = []\<rparr>)\<rparr>"



text \<open>A fresh state, and the options of a load of \<open>ggml-base.bin\<close> with \<open>whisper\<close>.\<close>

definition exampleState :: state where
  "exampleState =
     \<lparr>models = Map.empty,
      env = (\<lambda>name. []),
      heap = (\<lambda>p. \<lparr>Model = [], ModelFile = [], F16Memory = False, LibrarySearchPath = []\<rparr>),
      events = [],
      tick = 0\<rparr>"

definition exampleOptions :: Options where
  "exampleOptions =
     exampleDefaults
       \<lparr>backendString := ''whisper'', model := ''ggml-base.bin'', assetDir := ''/a'',
        grpcAttempts := 3, grpcAttemptsDelay := 2\<rparr>"

text \<open>
  The same load with two attempts and a delay of 9223372037 seconds, whose product with
  \<open>time.Second\<close> is beyond the largest \<open>int64\<close>.
\<close>

definition exampleLongDelayOptions :: Options where
  "exampleLongDelayOptions = exampleOptions\<lparr>grpcAttempts := 2, grpcAttemptsDelay := 9223372037\<rparr>"

text \<open>
  The example machine with backends that answer the third call and every later one,
  the same with backends that refuse to load the model, and the example machine with
  a path check that rejects every path.
\<close>

definition exampleLiveSystem :: system where
  "exampleLiveSystem = exampleSystem\<lparr>HealthCheck := (\<lambda>n a. (3 \<le> n, None))\<rparr>"

definition exampleRefusingSystem :: system where
  "exampleRefusingSystem =
     exampleLiveSystem
       \<lparr>rpcLoadModel := (\<lambda>n a opts. Inr \<lparr>Success = False, Message = ''unsupported model''\<rparr>)\<rparr>"

definition exampleStrictSystem :: system where
  "exampleStrictSystem =
     exampleSystem\<lparr>VerifyPath := (\<lambda>p b. Some (Err ''path is outside of trusted root''))\<rparr>"

text \<open>
  The example machine with a CPU that has neither AVX2 nor AVX; the same with the
  path check that rejects every path; and that one with no file installed at all.
\<close>

definition exampleOldCpuSystem :: system where
  "exampleOldCpuSystem = exampleSystem\<lparr>HasAVX2 := False, HasAVX := False\<rparr>"

definition exampleStrictOldCpuSystem :: system where
  "exampleStrictOldCpuSystem = exampleStrictSystem\<lparr>HasAVX2 := False, HasAVX := False\<rparr>"

definition exampleStrictBareSystem :: system where
  "exampleStrictBareSystem =
     exampleStrictSystem\<lparr>HasAVX2 := False, HasAVX := False, Stat := (\<lambda>p. StatNotExist)\<rparr>"

text \<open>
  The example machine with an asset directory that holds only the internal store and
  a subdirectory.
\<close>

definition exampleEmptySystem :: system where
  "exampleEmptySystem =
     exampleSystem
       \<lparr>ReadDir := (\<lambda>p. Inr [\<lparr>Name = ''local-store'', IsDir = False\<rparr>,
                             \<lparr>Name = ''python'', IsDir = True\<rparr>])\<rparr>"

text \<open>
  The example machine with an asset directory that holds the file \<open>whisper\<close> and a
  sub-directory \<open>llama-cpp-cuda\<close>, and with one that holds only the file \<open>llama-cpp\<close>.
\<close>

definition exampleSubdirDir :: "dirEntry list" where
  "exampleSubdirDir =
     [\<lparr>Name = ''llama-cpp-cuda'', IsDir = True\<rparr>, \<lparr>Name = ''whisper'', IsDir = False\<rparr>]"

definition exampleSubdirSystem :: system where
  "exampleSubdirSystem = exampleSystem\<lparr>ReadDir := (\<lambda>p. Inr exampleSubdirDir)\<rparr>"

definition examplePlainDir :: "dirEntry list" where
  "examplePlainDir = [\<lparr>Name = ''llama-cpp'', IsDir = False\<rparr>]"

definition examplePlainSystem :: system where
  "examplePlainSystem = exampleSystem\<lparr>ReadDir := (\<lambda>p. Inr examplePlainDir)\<rparr>"

text \<open>A state whose registry holds two models.\<close>

definition exampleLoadedState :: state where
  "exampleLoadedState =
     exampleState
       \<lparr>models :=
          [''ggml-base.bin'' \<mapsto> \<lparr>ID = ''ggml-base.bin'', address = ''127.0.0.1:50000'', process = Some 1\<rparr>,
           ''other.bin'' \<mapsto> \<lparr>ID = ''other.bin'', address = ''127.0.0.1:50001'', process = Some 2\<rparr>]\<rparr>"

lemmas backend_names =
  LlamaGGML_def LLamaCPP_def LLamaCPPAVX2_def LLamaCPPAVX_def LLamaCPPFallback_def
  LLamaCPPCUDA_def LLamaCPPHipblas_def LLamaCPPSycl16_def LLamaCPPSycl32_def LLamaCPPGRPC_def
  BertEmbeddingsBackend_def PiperBackend_def LCHuggingFaceBackend_def LocalStoreBackend_def

section \<open>Properties of the discovery of backends\<close>

subsection \<open>Lists without repetitions\<close>

lemma set_firstSeen: "set (firstSeen xs) = set xs"
  by (induction xs) auto

lemma distinct_firstSeen: "distinct (firstSeen xs)"
  by (induction xs) (auto simp: set_firstSeen)

lemma firstSeen_distinct: "distinct xs \<Longrightarrow> firstSeen xs = xs"
proof (induction xs)
  case (Cons x xs)
  then have "filter (\<lambda>y. y \<noteq> x) xs = xs" by (auto intro: filter_True)
  with Cons show ?case by simp
qed simp

lemma firstSeen_append:
  "firstSeen (xs @ ys) = firstSeen xs @ filter (\<lambda>y. y \<notin> set xs) (firstSeen ys)"
proof (induction xs)
  case (Cons x xs)
  have "filter (\<lambda>y. y \<noteq> x) (filter (\<lambda>y. y \<notin> set xs) zs) = filter (\<lambda>y. y \<notin> set (x # xs)) zs"
    for zs :: "'a list"
    by (induction zs) auto
  with Cons show ?case by simp
qed simp

subsection \<open>The first loop\<close>

lemma scan_keys:
  "fst ` set (scanEntries ad es b) = fst ` set b \<union> {Name e |e. e \<in> set es \<and> listed ad e}"
proof (induction es arbitrary: b)
  case (Cons e es)
  show ?case
  proof (cases "listed ad e")
    case True
    then have "scanEntries ad (e # es) b = scanEntries ad es (AList.update (Name e) [] b)"
      by (auto simp: listed_def)
    with True show ?thesis
      by (auto simp: Cons.IH AList.dom_update)
  next
    case False
    then have "scanEntries ad (e # es) b = scanEntries ad es b"
      by (auto simp: listed_def)
    with False show ?thesis
      by (auto simp: Cons.IH)
  qed
qed simp

lemma scan_distinct:
  "distinct (map fst b) \<Longrightarrow> distinct (map fst (scanEntries ad es b))"
  by (induction es arbitrary: b) (auto simp: AList.distinct_update)

lemma Contains_refl: "Contains s s"
  by (simp add: Contains_def)

lemma Contains_length: "Contains s t \<Longrightarrow> length t \<le> length s"
  by (auto simp: Contains_def sublist_def)

lemma not_listed_LLamaCPP: "listed True e \<Longrightarrow> Name e \<noteq> LLamaCPP"
proof
  assume "listed True e" "Name e = LLamaCPP"
  then have "Contains LLamaCPP LLamaCPPFallback"
    by (simp add: listed_def Contains_refl)
  from Contains_length [OF this] show False
    by (simp add: backend_names)
qed

lemma scan_no_LLamaCPP: "map_of (scanEntries True es []) LLamaCPP = None"
proof -
  have "LLamaCPP \<notin> fst ` set (scanEntries True es [])"
    by (auto simp: scan_keys) (metis not_listed_LLamaCPP)
  then show ?thesis by (simp add: map_of_eq_None_iff)
qed

subsection \<open>The second loop\<close>

lemma variantsOf_appendVariant: "variantsOf (appendVariant v b) = variantsOf b @ [v]"
  by (simp add: variantsOf_def appendVariant_def AList.update_conv')

lemma variantsOf_addNew:
  "variantsOf (addNew c v b) = variantsOf b @ (if c \<and> v \<notin> set (variantsOf b) then [v] else [])"
  by (simp add: addNew_def variantsOf_appendVariant)

lemma map_of_addNew: "k \<noteq> LLamaCPP \<Longrightarrow> map_of (addNew c v b) k = map_of b k"
  by (simp add: addNew_def appendVariant_def AList.update_conv')

lemma keys_addNew:
  "fst ` set (addNew c v b) =
     fst ` set b \<union> (if c \<and> v \<notin> set (variantsOf b) then {LLamaCPP} else {})"
  by (simp add: addNew_def appendVariant_def AList.dom_update)

lemma distinct_addNew: "distinct (map fst b) \<Longrightarrow> distinct (map fst (addNew c v b))"
  by (simp add: addNew_def appendVariant_def AList.distinct_update)

lemma step_AVX2:
  "(case (b, flagsOf (variantsOf b)) of (b, f) \<Rightarrow>
      if c \<and> \<not> foundLCPPAVX2 f
      then (appendVariant LLamaCPPAVX2 b, f\<lparr>foundLCPPAVX2 := True\<rparr>) else (b, f))
   = (addNew c LLamaCPPAVX2 b, flagsOf (variantsOf (addNew c LLamaCPPAVX2 b)))"
  by (simp add: addNew_def flagsOf_def variantsOf_appendVariant backend_names)

lemma step_AVX:
  "(case (b, flagsOf (variantsOf b)) of (b, f) \<Rightarrow>
      if c \<and> \<not> foundLCPPAVX f
      then (appendVariant LLamaCPPAVX b, f\<lparr>foundLCPPAVX := True\<rparr>) else (b, f))
   = (addNew c LLamaCPPAVX b, flagsOf (variantsOf (addNew c LLamaCPPAVX b)))"
  by (simp add: addNew_def flagsOf_def variantsOf_appendVariant backend_names)

lemma step_Fallback:
  "(case (b, flagsOf (variantsOf b)) of (b, f) \<Rightarrow>
      if c \<and> \<not> foundLCPPFallback f
      then (appendVariant LLamaCPPFallback b, f\<lparr>foundLCPPFallback := True\<rparr>) else (b, f))
   = (addNew c LLamaCPPFallback b, flagsOf (variantsOf (addNew c LLamaCPPFallback b)))"
  by (simp add: addNew_def flagsOf_def variantsOf_appendVariant backend_names)

lemma step_GRPC:
  "(case (b, flagsOf (variantsOf b)) of (b, f) \<Rightarrow>
      if c \<and> \<not> foundLCPPGRPC f
      then (appendVariant LLamaCPPGRPC b, f\<lparr>foundLCPPGRPC := True\<rparr>) else (b, f))
   = (addNew c LLamaCPPGRPC b, flagsOf (variantsOf (addNew c LLamaCPPGRPC b)))"
  by (simp add: addNew_def flagsOf_def variantsOf_appendVariant backend_names)

lemma step_CUDA:
  "(case (b, flagsOf (variantsOf b)) of (b, f) \<Rightarrow>
      if c \<and> \<not> foundLCPPCuda f
      then (appendVariant LLamaCPPCUDA b, f\<lparr>foundLCPPCuda := True\<rparr>) else (b, f))
   = (addNew c LLamaCPPCUDA b, flagsOf (variantsOf (addNew c LLamaCPPCUDA b)))"
  by (simp add: addNew_def flagsOf_def variantsOf_appendVariant backend_names)

lemma step_Hipblas:
  "(case (b, flagsOf (variantsOf b)) of (b, f) \<Rightarrow>
      if c \<and> \<not> foundLCPPHipblas f
      then (appendVariant LLamaCPPHipblas b, f\<lparr>foundLCPPHipblas := True\<rparr>) else (b, f))
   = (addNew c LLamaCPPHipblas b, flagsOf (variantsOf (addNew c LLamaCPPHipblas b)))"
  by (simp add: addNew_def flagsOf_def variantsOf_appendVariant backend_names)

lemma step_Sycl16:
  "(case (b, flagsOf (variantsOf b)) of (b, f) \<Rightarrow>
      if c \<and> \<not> foundSycl16 f
      then (appendVariant LLamaCPPSycl16 b, f\<lparr>foundSycl16 := True\<rparr>) else (b, f))
   = (addNew c LLamaCPPSycl16 b, flagsOf (variantsOf (addNew c LLamaCPPSycl16 b)))"
  by (simp add: addNew_def flagsOf_def variantsOf_appendVariant backend_names)

lemma step_Sycl32:
  "(case (b, flagsOf (variantsOf b)) of (b, f) \<Rightarrow>
      if c \<and> \<not> foundSycl32 f
      then (appendVariant LLamaCPPSycl32 b, f\<lparr>foundSycl32 := True\<rparr>) else (b, f))
   = (addNew c LLamaCPPSycl32 b, flagsOf (variantsOf (addNew c LLamaCPPSycl32 b)))"
  by (simp add: addNew_def flagsOf_def variantsOf_appendVariant backend_names)

lemma foldEntry_addAll:
  "foldEntry e (b, flagsOf (variantsOf b)) = (addAll (Name e) b, flagsOf (variantsOf (addAll (Name e) b)))"
  unfolding foldEntry_def Let_def addAll_def variantChecks_def foldl.simps
  by (simp only: step_AVX2 step_AVX step_Fallback step_GRPC step_CUDA step_Hipblas step_Sycl16 step_Sycl32)

lemma distinct_variantChecks: "distinct variantChecks"
  by (simp add: variantChecks_def backend_names)

lemma variantsOf_addNew_fold:
  "distinct cs \<Longrightarrow>
   variantsOf (foldl (\<lambda>b v. addNew (P v) v b) b cs) =
     variantsOf b @ filter (\<lambda>v. P v \<and> v \<notin> set (variantsOf b)) cs"
proof (induction cs arbitrary: b)
  case (Cons c cs)
  have "filter (\<lambda>v. P v \<and> v \<notin> set (variantsOf (addNew (P c) c b))) cs =
        filter (\<lambda>v. P v \<and> v \<notin> set (variantsOf b)) cs"
    using Cons.prems by (intro filter_cong) (auto simp: variantsOf_addNew)
  with Cons show ?case
    by (simp add: variantsOf_addNew)
qed simp

lemma variantsOf_addAll:
  "variantsOf (addAll n b) =
     variantsOf b @ filter (\<lambda>v. Contains n v \<and> v \<notin> set (variantsOf b)) variantChecks"
  unfolding addAll_def by (rule variantsOf_addNew_fold [OF distinct_variantChecks])

lemma variantsOf_addEntries:
  "variantsOf (addEntries es b) =
     variantsOf b @ filter (\<lambda>v. v \<notin> set (variantsOf b)) (firstSeen (matches es))"
proof (induction es arbitrary: b)
  case Nil
  show ?case by (simp add: addEntries_def matches_def)
next
  case (Cons e es)
  let ?m = "filter (Contains (Name e)) variantChecks"
  have m: "firstSeen ?m = ?m"
    by (simp add: firstSeen_distinct distinct_variantChecks)
  have unf: "addEntries (e # es) b = addEntries es (addAll (Name e) b)"
    by (simp add: addEntries_def)
  have ms: "matches (e # es) = ?m @ matches es"
    by (simp add: matches_def)
  have "filter (\<lambda>v. v \<notin> set (variantsOf (addAll (Name e) b))) zs =
        filter (\<lambda>v. v \<notin> set (variantsOf b)) (filter (\<lambda>y. y \<notin> set ?m) zs)" for zs
    by (induction zs) (auto simp: variantsOf_addAll)
  then show ?case
    unfolding unf ms Cons.IH firstSeen_append m
    by (simp add: variantsOf_addAll conj_commute)
qed

lemma map_of_addNew_fold:
  "k \<noteq> LLamaCPP \<Longrightarrow> map_of (foldl (\<lambda>b v. addNew (P v) v b) b cs) k = map_of b k"
  by (induction cs arbitrary: b) (simp_all add: map_of_addNew)

lemma map_of_addEntries:
  "k \<noteq> LLamaCPP \<Longrightarrow> map_of (addEntries es b) k = map_of b k"
  unfolding addEntries_def
  by (induction es arbitrary: b) (simp_all add: addAll_def map_of_addNew_fold)

lemma distinct_addNew_fold:
  "distinct (map fst b) \<Longrightarrow> distinct (map fst (foldl (\<lambda>b v. addNew (P v) v b) b cs))"
  by (induction cs arbitrary: b) (simp_all add: distinct_addNew)

lemma distinct_addEntries:
  "distinct (map fst b) \<Longrightarrow> distinct (map fst (addEntries es b))"
  unfolding addEntries_def
  by (induction es arbitrary: b) (simp_all add: addAll_def distinct_addNew_fold)

lemma not_Some_Nil_addNew:
  "map_of b LLamaCPP \<noteq> Some [] \<Longrightarrow> map_of (addNew c v b) LLamaCPP \<noteq> Some []"
  by (simp add: addNew_def appendVariant_def AList.update_conv')

lemma not_Some_Nil_addNew_fold:
  "map_of b LLamaCPP \<noteq> Some [] \<Longrightarrow>
   map_of (foldl (\<lambda>b v. addNew (P v) v b) b cs) LLamaCPP \<noteq> Some []"
  by (induction cs arbitrary: b) (simp_all add: not_Some_Nil_addNew)

lemma not_Some_Nil_addEntries:
  "map_of b LLamaCPP \<noteq> Some [] \<Longrightarrow> map_of (addEntries es b) LLamaCPP \<noteq> Some []"
  unfolding addEntries_def
  by (induction es arbitrary: b) (simp_all add: addAll_def not_Some_Nil_addNew_fold)

lemma foldl_foldEntry:
  "foldl (\<lambda>s e. foldEntry e s) (b, flagsOf (variantsOf b)) es =
     (addEntries es b, flagsOf (variantsOf (addEntries es b)))"
  unfolding addEntries_def
  by (induction es arbitrary: b) (simp_all add: foldEntry_addAll)

lemma discover_True:
  "discover True entry = addEntries entry (scanEntries True entry [])"
proof -
  have "variantsOf (scanEntries True entry []) = []"
    by (simp add: variantsOf_def scan_no_LLamaCPP)
  then have nf: "noneFound = flagsOf (variantsOf (scanEntries True entry []))"
    by (simp add: noneFound_def flagsOf_def)
  show ?thesis
    unfolding discover_def Let_def
    by (subst nf) (simp only: scan_no_LLamaCPP foldl_foldEntry if_True fst_conv refl)
qed

lemma discover_False: "discover False entry = scanEntries False entry []"
  by (simp add: discover_def)

lemma discover_variants:
  "map_of (discover True entry) LLamaCPP =
     (if firstSeen (matches entry) = [] then None else Some (firstSeen (matches entry)))"
proof -
  let ?b = "scanEntries True entry []"
  have v0: "variantsOf ?b = []"
    by (simp add: variantsOf_def scan_no_LLamaCPP)
  have vs: "variantsOf (addEntries entry ?b) = firstSeen (matches entry)"
    by (simp add: variantsOf_addEntries v0)
  have "map_of (addEntries entry ?b) LLamaCPP \<noteq> Some []"
    by (rule not_Some_Nil_addEntries) (simp add: scan_no_LLamaCPP)
  with vs show ?thesis
    unfolding discover_True
    by (auto simp: variantsOf_def split: option.splits)
qed

lemma discover_distinct: "distinct (map fst (discover ad entry))"
  by (cases ad) (simp_all add: discover_True discover_False distinct_addEntries scan_distinct)

lemma discover_keys:
  "fst ` set (discover ad entry) =
     {Name e |e. e \<in> set entry \<and> listed ad e} \<union>
     (if ad \<and> matches entry \<noteq> [] then {LLamaCPP} else {})"
proof (cases ad)
  case False
  then show ?thesis by (simp add: discover_False scan_keys)
next
  case True
  let ?b = "scanEntries True entry []"
  let ?L = "{Name e |e. e \<in> set entry \<and> listed True e}"
  have b: "fst ` set ?b = ?L" by (simp add: scan_keys)
  have notin: "LLamaCPP \<notin> ?L" by (auto) (metis not_listed_LLamaCPP)
  have fs: "firstSeen (matches entry) = [] \<longleftrightarrow> matches entry = []"
    by (metis set_firstSeen set_empty)
  have "dom (map_of (discover True entry)) = ?L \<union> (if matches entry \<noteq> [] then {LLamaCPP} else {})"
  proof (rule set_eqI)
    fix k
    show "k \<in> dom (map_of (discover True entry)) \<longleftrightarrow>
          k \<in> ?L \<union> (if matches entry \<noteq> [] then {LLamaCPP} else {})"
    proof (cases "k = LLamaCPP")
      case True
      with notin show ?thesis by (simp add: discover_variants fs dom_def)
    next
      case False
      have "k \<in> dom (map_of (discover True entry)) \<longleftrightarrow> k \<in> dom (map_of ?b)"
        by (simp add: discover_True map_of_addEntries [OF False] dom_def)
      also have "\<dots> \<longleftrightarrow> k \<in> ?L" by (simp only: dom_map_of_conv_image_fst b)
      finally show ?thesis using False by simp
    qed
  qed
  with True show ?thesis by (simp add: dom_map_of_conv_image_fst)
qed

subsection \<open>The ordered map\<close>

lemma keys_addPresent_fold:
  "distinct ps \<Longrightarrow> set ps \<inter> fst ` set om = {} \<Longrightarrow>
   map fst (foldl (addPresent B) om ps) = map fst om @ filter (\<lambda>p. p \<in> fst ` set B) ps"
proof (induction ps arbitrary: om)
  case (Cons p ps)
  show ?case
  proof (cases "map_of B p")
    case None
    then have "p \<notin> fst ` set B" by (simp add: map_of_eq_None_iff)
    with None Cons show ?thesis by (simp add: addPresent_def)
  next
    case (Some v)
    then have pin: "p \<in> fst ` set B" by (metis map_of_eq_None_iff option.distinct(1))
    have step: "addPresent B om p = AList.update p v om" by (simp add: addPresent_def Some)
    have keys: "map fst (AList.update p v om) = map fst om @ [p]"
      using Cons.prems by (auto simp: AList.update_keys)
    have "set ps \<inter> fst ` set (AList.update p v om) = {}"
      using Cons.prems by (auto simp: AList.dom_update)
    with Cons.IH [of "AList.update p v om"] Cons.prems pin show ?thesis
      by (simp add: step keys)
  qed
qed simp

lemma keys_addOther_fold:
  "distinct (map fst rng) \<Longrightarrow>
   map fst (foldl addOther om rng) =
     map fst om @ filter (\<lambda>k. k \<notin> set toTheEnd \<and> k \<notin> fst ` set om) (map fst rng)"
proof (induction rng arbitrary: om)
  case (Cons kv rng)
  let ?k = "fst kv"
  show ?case
  proof (cases "?k \<notin> set toTheEnd \<and> ?k \<notin> fst ` set om")
    case True
    then have step: "addOther om kv = AList.update ?k (snd kv) om"
      by (simp add: addOther_def map_of_eq_None_iff)
    have keys: "map fst (AList.update ?k (snd kv) om) = map fst om @ [?k]"
      using True by (auto simp: AList.update_keys)
    have "filter (\<lambda>k. k \<notin> set toTheEnd \<and> k \<notin> fst ` set (AList.update ?k (snd kv) om)) (map fst rng)
        = filter (\<lambda>k. k \<notin> set toTheEnd \<and> k \<notin> fst ` set om) (map fst rng)"
    proof (intro filter_cong refl)
      fix x assume x: "x \<in> set (map fst rng)"
      from Cons.prems have "?k \<notin> set (map fst rng)" by simp
      with x have "x \<noteq> ?k" by blast
      then show "(x \<notin> set toTheEnd \<and> x \<notin> fst ` set (AList.update ?k (snd kv) om)) =
                 (x \<notin> set toTheEnd \<and> x \<notin> fst ` set om)"
        by (simp add: AList.dom_update)
    qed
    with Cons.IH [of "AList.update ?k (snd kv) om"] Cons.prems True show ?thesis
      by (simp add: step keys)
  next
    case False
    then have step: "addOther om kv = om"
      by (auto simp: addOther_def map_of_eq_None_iff)
    with Cons.IH [of om] Cons.prems False show ?thesis
      by auto
  qed
qed simp

lemma priority_toTheEnd_disjoint: "set priorityList \<inter> set toTheEnd = {}"
  by (simp add: priorityList_def toTheEnd_def backend_names)

lemma distinct_priorityList: "distinct priorityList"
  by (simp add: priorityList_def backend_names)

lemma distinct_toTheEnd: "distinct toTheEnd"
  by (simp add: toTheEnd_def backend_names)

lemma orderBackends_eq:
  assumes "distinct (map fst rng)"
  shows "orderBackends B rng =
           filter (\<lambda>p. p \<in> fst ` set B) priorityList @
           filter (\<lambda>k. k \<notin> set toTheEnd \<and> k \<notin> set (filter (\<lambda>p. p \<in> fst ` set B) priorityList))
             (map fst rng) @
           filter (\<lambda>t. t \<in> fst ` set B) toTheEnd"
proof -
  let ?P = "filter (\<lambda>p. p \<in> fst ` set B) priorityList"
  let ?o1 = "foldl (addPresent B) [] priorityList"
  let ?o2 = "foldl addOther ?o1 rng"
  have k1: "map fst ?o1 = ?P"
    using keys_addPresent_fold [OF distinct_priorityList, of "[]" B] by simp
  have s1: "fst ` set ?o1 = set ?P"
    using k1 by (metis list.set_map)
  have k2: "map fst ?o2 = ?P @ filter (\<lambda>k. k \<notin> set toTheEnd \<and> k \<notin> set ?P) (map fst rng)"
    using keys_addOther_fold [OF assms, of ?o1] by (simp only: k1 s1)
  have "set toTheEnd \<inter> set (map fst ?o2) = {}"
    unfolding k2 using priority_toTheEnd_disjoint by auto
  then have "set toTheEnd \<inter> fst ` set ?o2 = {}" by simp
  from keys_addPresent_fold [OF distinct_toTheEnd this, of B]
  show ?thesis
    unfolding orderBackends_def Let_def by (simp only: k2 append_assoc)
qed

lemma matches_Nil_iff:
  "matches entry \<noteq> [] \<longleftrightarrow> (\<exists>e \<in> set entry. \<exists>v \<in> set variantChecks. Contains (Name e) v)"
  by (auto simp: matches_def filter_empty_conv)

lemma LocalStore_not_recorded: "LocalStoreBackend \<notin> fst ` set (discover ad entry)"
  unfolding discover_keys
  by (auto simp: listed_def excludeBackends_def backend_names)

subsection \<open>The candidate list\<close>

text \<open>
  The order of the list. Whenever the directory can be read, and \<open>range\<close> yields every
  pair of the map \<open>backends\<close> once, \<open>backendsInAssetDir\<close> returns the keys of the map that
  its two loops built, each exactly once: first those of \<open>llama-cpp\<close>, \<open>llama-ggml\<close>,
  \<open>llama-cpp-fallback\<close> that are keys, in this order, last those of \<open>huggingface\<close>,
  \<open>bert-embeddings\<close> that are keys, in this order, and between them names that are in
  neither list. \<open>local-store\<close> is never in the list.
\<close>

lemma backendsInAssetDir_order:
  assumes rd: "ReadDir sys (backendPath dir []) = Inr entry"
    and r1: "distinct (map fst (rangeOrder sys (discover (autoDetect sys) entry)))"
    and r2: "set (rangeOrder sys (discover (autoDetect sys) entry)) =
             set (discover (autoDetect sys) entry)"
  shows "\<exists>ks mid.
           backendsInAssetDir sys dir = Inr ks \<and>
           distinct ks \<and>
           set ks = fst ` set (discover (autoDetect sys) entry) \<and>
           ks = filter (\<lambda>p. p \<in> set ks) priorityList @ mid @
                filter (\<lambda>t. t \<in> set ks) toTheEnd \<and>
           set mid \<inter> (set priorityList \<union> set toTheEnd) = {} \<and>
           LocalStoreBackend \<notin> set ks"
proof -
  let ?B = "discover (autoDetect sys) entry"
  let ?rng = "rangeOrder sys ?B"
  let ?D = "fst ` set ?B"
  let ?P = "filter (\<lambda>p. p \<in> ?D) priorityList"
  let ?M = "filter (\<lambda>k. k \<notin> set toTheEnd \<and> k \<notin> set ?P) (map fst ?rng)"
  let ?E = "filter (\<lambda>t. t \<in> ?D) toTheEnd"
  let ?ks = "?P @ ?M @ ?E"
  have rkeys: "set (map fst ?rng) = ?D" using r2 by simp
  have res: "backendsInAssetDir sys dir = Inr ?ks"
    by (simp add: backendsInAssetDir_def rd Let_def orderBackends_eq [OF r1])
  have PE: "set ?P \<inter> set ?E = {}" using priority_toTheEnd_disjoint by auto
  have dist: "distinct ?ks"
    using r1 PE by (auto simp: distinct_priorityList distinct_toTheEnd)
  have setks: "set ?ks = ?D"
    using rkeys by auto
  have mid: "set ?M \<inter> (set priorityList \<union> set toTheEnd) = {}"
    using rkeys by auto
  have shape: "?ks = filter (\<lambda>p. p \<in> set ?ks) priorityList @ ?M @
                     filter (\<lambda>t. t \<in> set ?ks) toTheEnd"
    by (simp only: setks)
  have "LocalStoreBackend \<notin> set ?ks"
    by (simp only: setks LocalStore_not_recorded not_False_eq_True)
  with res dist setks shape mid show ?thesis by blast
qed

text \<open>
  The names of the list. On a directory in which every entry whose name contains the
  name of a variant is a file and not a log file, and in which the name of every file
  of the \<open>llama-cpp\<close> family contains the name of a variant, the list holds exactly the
  discovered names of the specification.
\<close>

lemma variant_family: "v \<in> set variantChecks \<Longrightarrow> Contains v LLamaCPP"
  unfolding variantChecks_def by (auto simp: backend_names Contains_def)

lemma Contains_trans: "Contains s v \<Longrightarrow> Contains v w \<Longrightarrow> Contains s w"
  unfolding Contains_def by (rule sublist_order.order_trans)

lemma claimedDiscovered_set:
  "set (claimedDiscovered ad entry) =
     {Name e |e. e \<in> set entry \<and> listed ad e} \<union>
     (if ad \<and> (\<exists>e \<in> set entry. \<not> IsDir e \<and> \<not> HasSuffix (Name e) ''.log'' \<and>
                                    Contains (Name e) LLamaCPP)
      then {LLamaCPP} else {})"
  by (auto simp: claimedDiscovered_def listed_def Let_def list_ex_iff)

lemma backendsInAssetDir_agrees:
  assumes rd: "ReadDir sys (backendPath dir []) = Inr entry"
    and r1: "distinct (map fst (rangeOrder sys (discover (autoDetect sys) entry)))"
    and r2: "set (rangeOrder sys (discover (autoDetect sys) entry)) =
             set (discover (autoDetect sys) entry)"
    and files: "\<And>e v. e \<in> set entry \<Longrightarrow> v \<in> set variantChecks \<Longrightarrow> Contains (Name e) v \<Longrightarrow>
                  \<not> IsDir e \<and> \<not> HasSuffix (Name e) ''.log''"
    and known: "\<And>e. e \<in> set entry \<Longrightarrow> \<not> IsDir e \<Longrightarrow> \<not> HasSuffix (Name e) ''.log'' \<Longrightarrow>
                  Contains (Name e) LLamaCPP \<Longrightarrow> \<exists>v \<in> set variantChecks. Contains (Name e) v"
  shows "\<exists>ks. backendsInAssetDir sys dir = Inr ks \<and>
              set ks = set (claimedDiscovered (autoDetect sys) entry)"
proof -
  from backendsInAssetDir_order [OF rd r1 r2] obtain ks where
    ks: "backendsInAssetDir sys dir = Inr ks" "set ks = fst ` set (discover (autoDetect sys) entry)"
    by blast
  have "(\<exists>e \<in> set entry. \<exists>v \<in> set variantChecks. Contains (Name e) v) \<longleftrightarrow>
        (\<exists>e \<in> set entry. \<not> IsDir e \<and> \<not> HasSuffix (Name e) ''.log'' \<and> Contains (Name e) LLamaCPP)"
    using files known variant_family Contains_trans by meson
  then have "set ks = set (claimedDiscovered (autoDetect sys) entry)"
    unfolding ks(2) discover_keys claimedDiscovered_set matches_Nil_iff by simp
  with ks(1) show ?thesis by blast
qed

subsection \<open>The member variants of \<open>llama-cpp\<close>\<close>

text \<open>
  C6, as the code has it. With auto-detection the first loop never records the key
  \<open>llama-cpp\<close>, and the second loop gives it the variant names that entry names
  contain, each once, in the order of their first discovery: the entries in the order
  of the directory and, on one entry, the tests in the order AVX2, AVX, fallback, GRPC,
  CUDA, HIPBLAS, SYCL-16, SYCL-32. With no such name there is no key \<open>llama-cpp\<close>.
\<close>

theorem llamaCPP_variants_in_discovery_order:
  "map_of (scanEntries True entry []) LLamaCPP = None \<and>
   map_of (discover True entry) LLamaCPP =
     (let vs = firstSeen (concat (map (\<lambda>e. filter (Contains (Name e)) variantChecks) entry))
      in if vs = [] then None else Some vs)"
  using discover_variants [of entry]
  by (simp add: scan_no_LLamaCPP matches_def Let_def)

text \<open>
  The fixed order CUDA, HIPBLAS, SYCL-16, SYCL-32, AVX2, AVX, fallback, GRPC is not the
  order of the member list: a directory with the files \<open>llama-cpp-avx2\<close> and
  \<open>llama-cpp-cuda\<close> gives AVX2, AVX, CUDA.
\<close>

theorem llamaCPP_variants_fixed_order_counterexample:
  "map_of (discover True exampleVariantDir) LLamaCPP =
     Some [''llama-cpp-avx2'', ''llama-cpp-avx'', ''llama-cpp-cuda''] \<and>
   claimedVariants exampleVariantDir = [''llama-cpp-cuda'', ''llama-cpp-avx2'', ''llama-cpp-avx''] \<and>
   map_of (discover True exampleVariantDir) LLamaCPP \<noteq> Some (claimedVariants exampleVariantDir) \<and>
   \<not> subseq [''llama-cpp-avx2'', ''llama-cpp-avx'', ''llama-cpp-cuda''] claimedVariantOrder"
  by code_simp

subsection \<open>The example directories\<close>

lemma exampleSystem_fields:
  "autoDetect exampleSystem = True"
  "rangeOrder exampleSystem = rev"
  "ReadDir exampleSystem ''/a/backend-assets/grpc'' = Inr exampleDir"
  by (simp_all add: exampleSystem_def)

lemma backendPath_example: "backendPath ''/a'' [] = ''/a/backend-assets/grpc''"
  by code_simp

text \<open>
  The candidate list of the example directory: the discovered names of the
  specification, in the order of the list.
\<close>

lemma backendsInAssetDir_example:
  "backendsInAssetDir exampleSystem ''/a'' =
     Inr [''llama-cpp'', ''llama-ggml'', ''llama-cpp-fallback'', ''whisper'',
          ''huggingface'', ''bert-embeddings''] \<and>
   claimedDiscovered True exampleDir =
     [''bert-embeddings'', ''huggingface'', ''llama-cpp-fallback'', ''llama-ggml'', ''whisper'',
      ''llama-cpp''] \<and>
   set [''llama-cpp'', ''llama-ggml'', ''llama-cpp-fallback'', ''whisper'',
        ''huggingface'', ''bert-embeddings''] = set (claimedDiscovered True exampleDir)"
proof (intro conjI)
  have "orderBackends (discover True exampleDir) (rev (discover True exampleDir)) =
          [''llama-cpp'', ''llama-ggml'', ''llama-cpp-fallback'', ''whisper'',
           ''huggingface'', ''bert-embeddings'']"
    by code_simp
  then show "backendsInAssetDir exampleSystem ''/a'' =
     Inr [''llama-cpp'', ''llama-ggml'', ''llama-cpp-fallback'', ''whisper'',
          ''huggingface'', ''bert-embeddings'']"
    by (simp add: backendsInAssetDir_def backendPath_example exampleSystem_fields)
  show "claimedDiscovered True exampleDir =
     [''bert-embeddings'', ''huggingface'', ''llama-cpp-fallback'', ''llama-ggml'', ''whisper'',
      ''llama-cpp'']"
    by code_simp
  show "set [''llama-cpp'', ''llama-ggml'', ''llama-cpp-fallback'', ''whisper'',
        ''huggingface'', ''bert-embeddings''] = set (claimedDiscovered True exampleDir)"
    by code_simp
qed

lemma exampleSubdir_fields:
  "autoDetect exampleSubdirSystem = True"
  "rangeOrder exampleSubdirSystem = rev"
  "ReadDir exampleSubdirSystem p = Inr exampleSubdirDir"
  "autoDetect examplePlainSystem = True"
  "rangeOrder examplePlainSystem = rev"
  "ReadDir examplePlainSystem p = Inr examplePlainDir"
  by (simp_all add: exampleSubdirSystem_def examplePlainSystem_def exampleSystem_def)

text \<open>
  C1, where the code departs from it. The candidate list is to hold the discovered names,
  and discovery skips sub-directories and log files: the first loop of
  \<open>backendsInAssetDir\<close> does, the second loop, which folds the variants of \<open>llama-cpp\<close>,
  tests the name of every entry of the directory. With auto-detection, on a directory
  that holds the file \<open>whisper\<close> and a sub-directory \<open>llama-cpp-cuda\<close> the list is
  \<open>llama-cpp\<close>, \<open>whisper\<close>, although the only backend file discovered is \<open>whisper\<close>.
  And on a directory that holds only the file \<open>llama-cpp\<close> the list is empty: the first
  loop skips the file and the second loop looks for the names of the variants only.
\<close>

theorem backendsInAssetDir_counts_subdirectory:
  "autoDetect exampleSubdirSystem \<and>
   ReadDir exampleSubdirSystem (backendPath ''/a'' []) =
     Inr [\<lparr>Name = ''llama-cpp-cuda'', IsDir = True\<rparr>, \<lparr>Name = ''whisper'', IsDir = False\<rparr>] \<and>
   backendsInAssetDir exampleSubdirSystem ''/a'' = Inr [''llama-cpp'', ''whisper''] \<and>
   claimedDiscovered True exampleSubdirDir = [''whisper''] \<and>
   autoDetect examplePlainSystem \<and>
   ReadDir examplePlainSystem (backendPath ''/a'' []) = Inr [\<lparr>Name = ''llama-cpp'', IsDir = False\<rparr>] \<and>
   backendsInAssetDir examplePlainSystem ''/a'' = Inr [] \<and>
   claimedDiscovered True examplePlainDir = [''llama-cpp'']"
proof -
  have o1: "orderBackends (discover True exampleSubdirDir) (rev (discover True exampleSubdirDir)) =
              [''llama-cpp'', ''whisper'']"
    by code_simp
  have o2: "orderBackends (discover True examplePlainDir) (rev (discover True examplePlainDir)) = []"
    by code_simp
  have c1: "claimedDiscovered True exampleSubdirDir = [''whisper'']"
    by code_simp
  have c2: "claimedDiscovered True examplePlainDir = [''llama-cpp'']"
    by code_simp
  have b1: "backendsInAssetDir exampleSubdirSystem ''/a'' = Inr [''llama-cpp'', ''whisper'']"
    by (simp add: backendsInAssetDir_def exampleSubdir_fields o1)
  have b2: "backendsInAssetDir examplePlainSystem ''/a'' = Inr []"
    by (simp add: backendsInAssetDir_def exampleSubdir_fields o2)
  have d1: "ReadDir exampleSubdirSystem (backendPath ''/a'' []) =
     Inr [\<lparr>Name = ''llama-cpp-cuda'', IsDir = True\<rparr>, \<lparr>Name = ''whisper'', IsDir = False\<rparr>]"
    by (simp add: exampleSubdir_fields exampleSubdirDir_def)
  have d2: "ReadDir examplePlainSystem (backendPath ''/a'' []) = Inr [\<lparr>Name = ''llama-cpp'', IsDir = False\<rparr>]"
    by (simp add: exampleSubdir_fields examplePlainDir_def)
  from b1 b2 c1 c2 d1 d2 show ?thesis
    by (simp only: exampleSubdir_fields simp_thms)
qed

section \<open>Properties of the selection of a variant\<close>

lemma splitPath_nonempty: "splitPath p \<noteq> []"
  by (induction p) (auto split: list.splits)

lemma splitPath_append: "splitPath (xs @ CHR ''/'' # ys) = splitPath xs @ splitPath ys"
proof (induction xs)
  case (Cons c xs)
  then show ?case
    using splitPath_nonempty [of xs] by (cases "splitPath xs") auto
qed simp

lemma splitPath_noslash: "CHR ''/'' \<notin> set v \<Longrightarrow> splitPath v = [v]"
  by (induction v) auto

lemma cleanElems_snoc:
  "simpleName v \<Longrightarrow> cleanElems r (es @ [v]) out = cleanElems r es out @ [v]"
  by (induction r es out rule: cleanElems.induct) (auto simp: simpleName_def split: list.splits)

lemma joinWith_snoc:
  "joinWith sep (xs @ [v]) = (if xs = [] then v else joinWith sep xs @ sep @ v)"
  by (induction sep xs rule: joinWith.induct) auto

lemma baseName_append:
  assumes "CHR ''/'' \<notin> set v" and "Y = [] \<or> last Y = CHR ''/''"
  shows "baseName (Y @ v) = v"
proof -
  have "takeWhile (\<lambda>c. c \<noteq> CHR ''/'') (rev Y) = []"
    using assms(2) by (cases "rev Y") (auto simp: last_rev [symmetric] simp del: last_rev)
  moreover have "takeWhile (\<lambda>c. c \<noteq> CHR ''/'') (rev v @ rev Y) =
                 rev v @ takeWhile (\<lambda>c. c \<noteq> CHR ''/'') (rev Y)"
    by (rule takeWhile_append2) (use assms(1) in auto)
  ultimately show ?thesis
    by (simp add: baseName_def)
qed

lemma Clean_base:
  assumes v: "simpleName v"
  shows "baseName (Clean (X @ CHR ''/'' # v)) = v"
proof -
  let ?J = "X @ CHR ''/'' # v"
  let ?r = "hd ?J = CHR ''/''"
  let ?pre = "cleanElems ?r (splitPath X) []"
  let ?root = "if ?r then ''/'' else []"
  have ns: "CHR ''/'' \<notin> set v" and ne: "v \<noteq> []" using v by (auto simp: simpleName_def)
  have sp: "splitPath ?J = splitPath X @ [v]"
    by (simp add: splitPath_append splitPath_noslash ns)
  have ce: "cleanElems ?r (splitPath ?J) [] = ?pre @ [v]"
    unfolding sp by (rule cleanElems_snoc [OF v])
  let ?Y = "?root @ (if ?pre = [] then [] else joinWith ''/'' ?pre @ ''/'')"
  have out: "?root @ joinWith ''/'' (cleanElems ?r (splitPath ?J) []) = ?Y @ v"
    unfolding ce by (simp add: joinWith_snoc)
  have Y: "?Y = [] \<or> last ?Y = CHR ''/''" by auto
  have "Clean ?J = ?Y @ v"
    using ne out by (simp add: Clean_def Let_def)
  then show ?thesis
    using baseName_append [OF ns Y] by simp
qed

lemma backendPath_base: "simpleName v \<Longrightarrow> baseName (backendPath dir v) = v"
proof -
  assume v: "simpleName v"
  then have ne: "v \<noteq> []" by (simp add: simpleName_def)
  show ?thesis
  proof (cases "dir = []")
    case True
    have eq: "backendPath dir v = Clean (''backend-assets/grpc'' @ CHR ''/'' # v)"
      using ne True by (cases v) (simp_all add: backendPath_def Join_def)
    show ?thesis unfolding eq by (rule Clean_base [OF v])
  next
    case False
    have eq: "backendPath dir v = Clean ((dir @ ''/backend-assets/grpc'') @ CHR ''/'' # v)"
      using ne False by (cases v) (simp_all add: backendPath_def Join_def)
    show ?thesis unfolding eq by (rule Clean_base [OF v])
  qed
qed

lemma backendPath_inj:
  "simpleName v \<Longrightarrow> simpleName w \<Longrightarrow> backendPath dir v = backendPath dir w \<Longrightarrow> v = w"
  by (metis backendPath_base)












subsection \<open>The example machine with an Nvidia card\<close>

lemma example_paths:
  "backendPath ''/a'' LLamaCPPAVX2 = ''/a/backend-assets/grpc/llama-cpp-avx2''"
  "backendPath ''/a'' LLamaCPPAVX = ''/a/backend-assets/grpc/llama-cpp-avx''"
  "backendPath ''/a'' LLamaCPPFallback = ''/a/backend-assets/grpc/llama-cpp-fallback''"
  "backendPath ''/a'' LLamaCPPGRPC = ''/a/backend-assets/grpc/llama-cpp-grpc''"
  "backendPath ''/a'' LLamaCPPCUDA = ''/a/backend-assets/grpc/llama-cpp-cuda''"
  "backendPath ''/a'' LLamaCPPHipblas = ''/a/backend-assets/grpc/llama-cpp-hipblas''"
  "backendPath ''/a'' LLamaCPPSycl16 = ''/a/backend-assets/grpc/llama-cpp-sycl_16''"
  "backendPath ''/a'' LLamaCPPSycl32 = ''/a/backend-assets/grpc/llama-cpp-sycl_32''"
  "backendPath ''/a'' LLamaCPP = ''/a/backend-assets/grpc/llama-cpp''"
  by code_simp+






section \<open>Properties of grpcModel\<close>

lemma cache_fold_fields:
  "events (foldl (\<lambda>s name.
              if env s name = [] then
                (case Setenv name mp (env s) of None \<Rightarrow> s | Some e \<Rightarrow> s\<lparr>env := e\<rparr>)
              else s) s names) = events s \<and>
   tick (foldl (\<lambda>s name.
              if env s name = [] then
                (case Setenv name mp (env s) of None \<Rightarrow> s | Some e \<Rightarrow> s\<lparr>env := e\<rparr>)
              else s) s names) = tick s \<and>
   models (foldl (\<lambda>s name.
              if env s name = [] then
                (case Setenv name mp (env s) of None \<Rightarrow> s | Some e \<Rightarrow> s\<lparr>env := e\<rparr>)
              else s) s names) = models s \<and>
   heap (foldl (\<lambda>s name.
              if env s name = [] then
                (case Setenv name mp (env s) of None \<Rightarrow> s | Some e \<Rightarrow> s\<lparr>env := e\<rparr>)
              else s) s names) = heap s"
  by (induction names arbitrary: s) (auto split: option.splits)

lemma setCacheEnv_fields:
  "events (setCacheEnv mp s) = events s"
  "tick (setCacheEnv mp s) = tick s"
  "models (setCacheEnv mp s) = models s"
  "heap (setCacheEnv mp s) = heap s"
  unfolding setCacheEnv_def by (simp_all only: cache_fold_fields)

lemma waited_append: "waited (xs @ ys) = waited xs + waited ys"
  by (induction xs rule: waited.induct) simp_all

lemma waited_attempts:
  "waited (concat (replicate n [HealthChecked a, Slept d])) = int n * max 0 (sint d)"
  by (induction n) (simp_all add: algebra_simps)

text \<open>
  The product with \<open>time.Second\<close> does not wrap for a delay of 0 to 9223372036 seconds
  (the largest \<open>int64\<close> is 9223372036854775807).
\<close>

lemma sint_Second:
  fixes d :: "64 word"
  assumes "0 \<le> sint d" and "sint d \<le> 9223372036"
  shows "sint (d * Second) = sint d * 1000000000"
proof -
  have s: "sint Second = 1000000000"
    by (simp add: Second_def)
  have lo: "- (2 ^ 63) \<le> sint d * 1000000000" using assms(1) by simp
  have hi: "sint d * 1000000000 < 2 ^ 63" using assms(2) by simp
  have "sint (d * Second) = signed_take_bit 63 (sint d * sint Second)"
    by (simp add: sint_word_ariths)
  also have "\<dots> = sint d * 1000000000"
    unfolding s using lo hi by (simp add: signed_take_bit_int_eq_self)
  finally show ?thesis .
qed

lemma waitReady_dead:
  "\<forall>i < n. \<not> fst (HealthCheck sys (tick s + i) (address client)) \<Longrightarrow>
   waitReady sys opt client n s =
     (s\<lparr>events := events s @
          concat (replicate n [HealthChecked (address client), Slept (grpcAttemptsDelay opt * Second)]),
        tick := tick s + n\<rparr>, False)"
proof (induction n arbitrary: s)
  case 0
  show ?case by simp
next
  case (Suc n)
  let ?s1 = "s\<lparr>events := events s @ [HealthChecked (address client)], tick := tick s + 1\<rparr>"
  let ?s2 = "?s1\<lparr>events := events ?s1 @ [Slept (grpcAttemptsDelay opt * Second)]\<rparr>"
  from Suc.prems have first: "\<not> fst (HealthCheck sys (tick s) (address client))"
    by (metis add.right_neutral zero_less_Suc)
  have rest: "\<forall>i < n. \<not> fst (HealthCheck sys (tick ?s2 + i) (address client))"
  proof (intro allI impI)
    fix i assume "i < n"
    then have "Suc i < Suc n" by simp
    with Suc.prems have "\<not> fst (HealthCheck sys (tick s + Suc i) (address client))" by blast
    then show "\<not> fst (HealthCheck sys (tick ?s2 + i) (address client))" by simp
  qed
  from first obtain err where hc: "HealthCheck sys (tick s) (address client) = (False, err)"
    by (cases "HealthCheck sys (tick s) (address client)") auto
  have step: "waitReady sys opt client (Suc n) s = waitReady sys opt client n ?s2"
    by (simp add: healthCheckCall_def hc)
  show ?case
    unfolding step Suc.IH [OF rest] by simp
qed

subsection \<open>A backend that never becomes ready\<close>

lemma grpcModel_exhausted:
  assumes start: "startBackend sys backend opt modelName (setCacheEnv (ModelPath sys) s) = (s1, Inr client)"
    and dead: "\<forall>i < nat (sint (grpcAttempts opt)). \<not> fst (HealthCheck sys (tick s1 + i) (address client))"
  shows "grpcModel sys backend opt modelName modelFile s =
           (deleteProcess (model opt)
              (s1\<lparr>events := events s1 @
                    concat (replicate (nat (sint (grpcAttempts opt)))
                              [HealthChecked (address client), Slept (grpcAttemptsDelay opt * Second)]),
                  tick := tick s1 + nat (sint (grpcAttempts opt))\<rparr>),
            Inl (Err ''grpc service not ready''))"
  by (simp add: grpcModel_def start waitReady_dead [OF dead])

text \<open>
  C3, as the code has it. When the backend was started (or addressed) and none of the
  health checks of the attempt budget is alive, \<open>grpcModel\<close> runs all the attempts (none
  for a negative bound), after each of them calls \<open>time.Sleep\<close> with the product of the
  configured delay and \<open>time.Second\<close>, taken in \<open>int64\<close>, then calls \<open>deleteProcess\<close> for the
  model and returns the error \<open>grpc service not ready\<close>; the registry holds no handle
  for the model. Every sleep waits the product when it is positive and nothing
  otherwise. For a delay of 0 to 9223372036 seconds the product is the delay, and the
  time waited is attempts times delay.
\<close>

theorem grpcModel_not_ready:
  assumes start: "startBackend sys backend opt modelName (setCacheEnv (ModelPath sys) s) = (s1, Inr client)"
    and dead: "\<forall>i < nat (sint (grpcAttempts opt)). \<not> fst (HealthCheck sys (tick s1 + i) (address client))"
  shows "\<exists>s'. grpcModel sys backend opt modelName modelFile s = (s', Inl (Err ''grpc service not ready'')) \<and>
           events s' = events s1 @
             concat (replicate (nat (sint (grpcAttempts opt)))
                       [HealthChecked (address client), Slept (grpcAttemptsDelay opt * Second)]) @
             [DeleteProcess (model opt)] \<and>
           waited (events s') =
             waited (events s1) +
             int (nat (sint (grpcAttempts opt))) * max 0 (sint (grpcAttemptsDelay opt * Second)) \<and>
           (0 \<le> sint (grpcAttemptsDelay opt) \<and> sint (grpcAttemptsDelay opt) \<le> 9223372036 \<longrightarrow>
              sint (grpcAttemptsDelay opt * Second) = sint (grpcAttemptsDelay opt) * 1000000000 \<and>
              waited (events s') =
                waited (events s1) +
                int (nat (sint (grpcAttempts opt))) * (sint (grpcAttemptsDelay opt) * 1000000000)) \<and>
           (0 \<le> sint (grpcAttempts opt) \<and>
            0 \<le> sint (grpcAttemptsDelay opt) \<and> sint (grpcAttemptsDelay opt) \<le> 9223372036 \<longrightarrow>
              waited (events s') =
                waited (events s1) +
                sint (grpcAttempts opt) * sint (grpcAttemptsDelay opt) * 1000000000) \<and>
           models s' (model opt) = None"
proof -
  let ?n = "nat (sint (grpcAttempts opt))"
  let ?d = "grpcAttemptsDelay opt * Second"
  let ?s2 = "s1\<lparr>events := events s1 @
          concat (replicate ?n [HealthChecked (address client), Slept ?d]),
        tick := tick s1 + ?n\<rparr>"
  let ?s' = "deleteProcess (model opt) ?s2"
  have res: "grpcModel sys backend opt modelName modelFile s =
               (?s', Inl (Err ''grpc service not ready''))"
    by (rule grpcModel_exhausted [OF start dead])
  have ev: "events ?s' = events s1 @
             concat (replicate ?n [HealthChecked (address client), Slept ?d]) @
             [DeleteProcess (model opt)]"
    by (simp add: deleteProcess_def)
  have tot: "waited (events ?s') = waited (events s1) + int ?n * max 0 (sint ?d)"
    unfolding ev by (simp add: waited_append waited_attempts)
  have inrange: "sint ?d = sint (grpcAttemptsDelay opt) * 1000000000 \<and>
      waited (events ?s') =
        waited (events s1) + int ?n * (sint (grpcAttemptsDelay opt) * 1000000000)"
    if "0 \<le> sint (grpcAttemptsDelay opt) \<and> sint (grpcAttemptsDelay opt) \<le> 9223372036"
  proof -
    from that have p: "sint ?d = sint (grpcAttemptsDelay opt) * 1000000000"
      by (simp add: sint_Second)
    from that have "0 \<le> sint ?d" unfolding p by simp
    with tot p show ?thesis by simp
  qed
  have product: "waited (events ?s') =
        waited (events s1) + sint (grpcAttempts opt) * sint (grpcAttemptsDelay opt) * 1000000000"
    if "0 \<le> sint (grpcAttempts opt) \<and>
        0 \<le> sint (grpcAttemptsDelay opt) \<and> sint (grpcAttemptsDelay opt) \<le> 9223372036"
    using inrange that by simp
  have gone: "models ?s' (model opt) = None"
    by (simp add: deleteProcess_def)
  from res ev tot inrange product gone show ?thesis
    by blast
qed

subsection \<open>The load-model call\<close>

text \<open>
  C7. When the backend is ready, the load-model call decides: on a transport error and
  on a result without success \<open>grpcModel\<close> calls \<open>deleteProcess\<close> for the model, so that
  the registry holds no handle for it, and returns an error; only on a result with
  success it returns the handle, and nothing is deleted.
\<close>

theorem grpcModel_load_result:
  assumes start: "startBackend sys backend opt modelName (setCacheEnv (ModelPath sys) s) = (s1, Inr client)"
    and ready: "waitReady sys opt client (nat (sint (grpcAttempts opt))) s1 = (s2, True)"
  shows "\<exists>s'.
           (case rpcLoadModel sys (tick s2) (address client)
                   ((heap s2 (gRPCOptions opt))\<lparr>Model := modelName, ModelFile := modelFile\<rparr>) of
              Inl err \<Rightarrow>
                grpcModel sys backend opt modelName modelFile s =
                  (s', Inl (Wrapf ''could not load model: '' err)) \<and>
                models s' (model opt) = None \<and>
                last (events s') = DeleteProcess (model opt)
            | Inr res \<Rightarrow>
                if Success res then
                  grpcModel sys backend opt modelName modelFile s = (s', Inr client) \<and>
                  models s' = models s2 \<and>
                  events s' = events s2 @
                    [LoadModelCalled (address client)
                       ((heap s2 (gRPCOptions opt))\<lparr>Model := modelName, ModelFile := modelFile\<rparr>)]
                else
                  grpcModel sys backend opt modelName modelFile s =
                    (s', Inl (Err (''could not load model (no success): '' @ Message res))) \<and>
                  models s' (model opt) = None \<and>
                  last (events s') = DeleteProcess (model opt))"
proof -
  let ?options = "(heap s2 (gRPCOptions opt))\<lparr>Model := modelName, ModelFile := modelFile\<rparr>"
  have g: "grpcModel sys backend opt modelName modelFile s =
             loadOnBackend sys opt client modelName modelFile s2"
    by (simp add: grpcModel_def start ready)
  show ?thesis
  proof (cases "rpcLoadModel sys (tick s2) (address client) ?options")
    case (Inl err)
    then show ?thesis
      by (simp add: g loadOnBackend_def loadModelCall_def deleteProcess_def)
  next
    case (Inr res)
    then show ?thesis
      by (cases "Success res") (simp_all add: g loadOnBackend_def loadModelCall_def deleteProcess_def)
  qed
qed

subsection \<open>The checks on the path of the backend\<close>

lemma grpcModel_rejected:
  assumes "map_of (externalBackends opt) backend = None"
    and "VerifyPath sys (backendPath (assetDir opt) backend) (assetDir opt) = Some e"
  shows "grpcModel sys backend opt modelName modelFile s =
           (setCacheEnv (ModelPath sys) s,
            Inl (Err (''refering to a backend not in asset dir: '' @ errorText e)))"
  by (simp add: grpcModel_def startBackend_def assms)

text \<open>
  C9. For a backend that is not external, when \<open>utils.VerifyPath\<close> rejects the path of
  the backend under the asset directory, \<open>grpcModel\<close> returns the error
  \<open>refering to a backend not in asset dir\<close>; when the path passes and the executable
  looked for does not exist, it returns the error \<open>backend not found\<close>. In both cases
  nothing was started, no call went out and the registry is as before.
\<close>

theorem grpcModel_path_checks:
  assumes local: "map_of (externalBackends opt) backend = None"
  shows "(VerifyPath sys (backendPath (assetDir opt) backend) (assetDir opt) = Some e \<longrightarrow>
            grpcModel sys backend opt modelName modelFile s =
              (setCacheEnv (ModelPath sys) s,
               Inl (Err (''refering to a backend not in asset dir: '' @ errorText e)))) \<and>
         (VerifyPath sys (backendPath (assetDir opt) backend) (assetDir opt) = None \<and>
          Stat sys (resolvedProcess sys opt backend (setCacheEnv (ModelPath sys) s)) = StatNotExist \<longrightarrow>
            grpcModel sys backend opt modelName modelFile s =
              (setCacheEnv (ModelPath sys) s,
               Inl (Err (''backend not found: '' @
                         resolvedProcess sys opt backend (setCacheEnv (ModelPath sys) s))))) \<and>
         events (setCacheEnv (ModelPath sys) s) = events s \<and>
         tick (setCacheEnv (ModelPath sys) s) = tick s \<and>
         models (setCacheEnv (ModelPath sys) s) = models s"
proof (intro conjI impI)
  assume "VerifyPath sys (backendPath (assetDir opt) backend) (assetDir opt) = Some e"
  with local show "grpcModel sys backend opt modelName modelFile s =
      (setCacheEnv (ModelPath sys) s,
       Inl (Err (''refering to a backend not in asset dir: '' @ errorText e)))"
    by (rule grpcModel_rejected)
next
  assume "VerifyPath sys (backendPath (assetDir opt) backend) (assetDir opt) = None \<and>
    Stat sys (resolvedProcess sys opt backend (setCacheEnv (ModelPath sys) s)) = StatNotExist"
  then show "grpcModel sys backend opt modelName modelFile s =
      (setCacheEnv (ModelPath sys) s,
       Inl (Err (''backend not found: '' @
                 resolvedProcess sys opt backend (setCacheEnv (ModelPath sys) s))))"
    by (simp add: grpcModel_def startBackend_def local resolvedProcess_def Let_def)
qed (simp_all add: setCacheEnv_fields)

subsection \<open>Loads on the example machine\<close>

lemma startBackend_local:
  assumes "map_of (externalBackends opt) backend = None"
    and "VerifyPath sys (backendPath (assetDir opt) backend) (assetDir opt) = None"
    and "Stat sys (resolvedProcess sys opt backend s) \<noteq> StatNotExist"
    and "GetFreePort sys (tick s) = Inr port"
    and "LoadLDSO sys (assetDir opt) [] (resolvedProcess sys opt backend s) = (args, p2)"
    and "startProcess sys (tick s + 1) p2 (model opt) (''127.0.0.1:'' @ showNat port) args = Inr proc"
  shows "startBackend sys backend opt modelName s =
           (s\<lparr>events := events s @
                 [StartProcess p2 (model opt) (''127.0.0.1:'' @ showNat port) args],
              tick := tick s + 2\<rparr>,
            Inr (NewModel modelName (''127.0.0.1:'' @ showNat port) (Some proc)))"
proof -
  define p where "p = resolvedProcess sys opt backend s"
  have unf: "startBackend sys backend opt modelName s =
      (if Stat sys p = StatNotExist
       then (s, Inl (Err (''backend not found: '' @ p)))
       else
         (case getFreeAddress sys s of
            (s1, Inl err) \<Rightarrow>
              (s1, Inl (Err (''failed allocating free ports: '' @ errorText err)))
          | (s1, Inr serverAddress) \<Rightarrow>
              (case LoadLDSO sys (assetDir opt) [] p of
                 (args, grpcProcess2) \<Rightarrow>
                   (case startProcessCall sys grpcProcess2 (model opt) serverAddress args s1 of
                      (s2, Inl err) \<Rightarrow> (s2, Inl err)
                    | (s2, Inr proc) \<Rightarrow>
                        (s2, Inr (NewModel modelName serverAddress (Some proc)))))))"
    unfolding startBackend_def p_def resolvedProcess_def Let_def
    by (simp only: assms(1,2) option.case)
  show ?thesis
    unfolding unf
    using assms(3-6) [folded p_def]
    by (simp add: getFreeAddress_def startProcessCall_def)
qed

lemma example_whisper_path:
  "backendPath ''/a'' ''whisper'' = ''/a/backend-assets/grpc/whisper''"
  "backendPath ''/a'' ''piper'' = ''/a/backend-assets/grpc/piper''"
  by code_simp+

lemma example_port: "showNat 50000 = ''50000''"
  by (simp add: showNat.simps)

lemma exampleOptions_fields:
  "externalBackends exampleOptions = []"
  "assetDir exampleOptions = ''/a''"
  "model exampleOptions = ''ggml-base.bin''"
  "grpcAttempts exampleOptions = 3"
  "grpcAttemptsDelay exampleOptions = 2"
  "gRPCOptions exampleOptions = 0"
  "singleActiveBackend exampleOptions = False"
  "parallelRequests exampleOptions = False"
  by (simp_all add: exampleOptions_def exampleDefaults_def)

lemma exampleState_fields:
  "tick exampleState = 0" "events exampleState = []" "models exampleState = Map.empty"
  by (simp_all add: exampleState_def)

lemma exampleSystem_calls:
  "VerifyPath exampleSystem p b = None"
  "GetFreePort exampleSystem n = Inr (50000 + n)"
  "LoadLDSO exampleSystem a args p = (args, p)"
  "startProcess exampleSystem n p m a args = Inr n"
  "ModelPath exampleSystem = ''/models''"
  "autoDetect exampleSystem"
  "Stat exampleSystem ''/a/backend-assets/grpc/whisper'' = StatOk"
  "Stat exampleSystem ''/a/backend-assets/grpc/piper'' = StatNotExist"
  "HealthCheck exampleSystem n a = (False, Some (Err ''connection refused''))"
  "rpcLoadModel exampleSystem n a opts = Inr \<lparr>Success = True, Message = []\<rparr>"
  by (simp_all add: exampleSystem_def exampleDir_def)

lemma example_start:
  assumes sys: "sys = exampleSystem\<lparr>HealthCheck := h, rpcLoadModel := r\<rparr>"
  shows "startBackend sys ''whisper'' exampleOptions ''ggml-base.bin''
           (setCacheEnv (ModelPath sys) exampleState) =
         ((setCacheEnv (ModelPath sys) exampleState)
            \<lparr>events := [StartProcess ''/a/backend-assets/grpc/whisper'' ''ggml-base.bin''
                           ''127.0.0.1:50000'' []],
             tick := 2\<rparr>,
          Inr \<lparr>ID = ''ggml-base.bin'', address = ''127.0.0.1:50000'', process = Some 1\<rparr>)"
proof -
  let ?s = "setCacheEnv (ModelPath sys) exampleState"
  have p: "resolvedProcess sys exampleOptions ''whisper'' ?s = ''/a/backend-assets/grpc/whisper''"
    by (simp add: resolvedProcess_def selectGRPCProcess_def LLamaCPP_def exampleOptions_fields
        example_whisper_path)
  have st: "Stat sys (resolvedProcess sys exampleOptions ''whisper'' ?s) \<noteq> StatNotExist"
    unfolding p unfolding sys by (simp add: exampleSystem_calls)
  have e: "map_of (externalBackends exampleOptions) ''whisper'' = None"
    by (simp add: exampleOptions_fields)
  have v: "VerifyPath sys (backendPath (assetDir exampleOptions) ''whisper'') (assetDir exampleOptions) = None"
    unfolding sys by (simp add: exampleSystem_calls)
  have t: "tick ?s = 0" "events ?s = []"
    by (simp_all add: setCacheEnv_fields exampleState_fields)
  have f: "GetFreePort sys (tick ?s) = Inr 50000"
    unfolding t unfolding sys by (simp add: exampleSystem_calls)
  have l: "LoadLDSO sys (assetDir exampleOptions) [] (resolvedProcess sys exampleOptions ''whisper'' ?s) =
             ([], ''/a/backend-assets/grpc/whisper'')"
    unfolding p unfolding sys by (simp add: exampleSystem_calls)
  have sp: "startProcess sys (tick ?s + 1) ''/a/backend-assets/grpc/whisper'' (model exampleOptions)
              (''127.0.0.1:'' @ showNat 50000) [] = Inr 1"
    unfolding t unfolding sys by (simp add: exampleSystem_calls)
  show ?thesis
    unfolding startBackend_local [OF e v st f l sp]
    by (simp add: t exampleOptions_fields example_port NewModel_def)
qed

lemma startBackend_attempts:
  "startBackend sys b (opt\<lparr>grpcAttempts := a, grpcAttemptsDelay := d\<rparr>) n s = startBackend sys b opt n s"
  by (simp add: startBackend_def Let_def split del: if_split
       cong: option.case_cong prod.case_cong sum.case_cong if_cong)

lemma example_seconds:
  "(2 :: 64 word) * Second = 2000000000"
  "sint (2000000000 :: 64 word) = 2000000000"
  "(9223372037 :: 64 word) * Second = 9223372037000000000"
  "sint (9223372037000000000 :: 64 word) = - 9223372036709551616"
  "sint (3 :: 64 word) = 3"
  "sint (2 :: 64 word) = 2"
  "sint (9223372037 :: 64 word) = 9223372037"
  by (simp_all add: Second_def)

text \<open>Three attempts with a delay of two seconds on a backend that never answers.\<close>

theorem grpcModel_not_ready_witness:
  "\<exists>s'. grpcModel exampleSystem ''whisper'' exampleOptions ''ggml-base.bin''
            ''/models/ggml-base.bin'' exampleState =
            (s', Inl (Err ''grpc service not ready'')) \<and>
         events s' =
           [StartProcess ''/a/backend-assets/grpc/whisper'' ''ggml-base.bin'' ''127.0.0.1:50000'' [],
            HealthChecked ''127.0.0.1:50000'', Slept 2000000000,
            HealthChecked ''127.0.0.1:50000'', Slept 2000000000,
            HealthChecked ''127.0.0.1:50000'', Slept 2000000000,
            DeleteProcess ''ggml-base.bin''] \<and>
         waited (events s') = 3 * 2 * 1000000000 \<and>
         models s' ''ggml-base.bin'' = None"
proof -
  have sys: "exampleSystem = exampleSystem\<lparr>HealthCheck := HealthCheck exampleSystem,
      rpcLoadModel := rpcLoadModel exampleSystem\<rparr>"
    by simp
  note start = example_start [OF sys]
  let ?s1 = "(setCacheEnv (ModelPath exampleSystem) exampleState)
            \<lparr>events := [StartProcess ''/a/backend-assets/grpc/whisper'' ''ggml-base.bin''
                           ''127.0.0.1:50000'' []],
             tick := 2\<rparr>"
  let ?c = "\<lparr>ID = ''ggml-base.bin'', address = ''127.0.0.1:50000'', process = Some 1\<rparr>"
  have dead: "\<forall>i < nat (sint (grpcAttempts exampleOptions)).
      \<not> fst (HealthCheck exampleSystem (tick ?s1 + i) (address ?c))"
    by (simp add: exampleSystem_calls)
  from grpcModel_not_ready [OF start dead, of "''/models/ggml-base.bin''"]
  obtain s' where
    r: "grpcModel exampleSystem ''whisper'' exampleOptions ''ggml-base.bin''
          ''/models/ggml-base.bin'' exampleState = (s', Inl (Err ''grpc service not ready''))"
    and ev: "events s' = events ?s1 @
             concat (replicate (nat (sint (grpcAttempts exampleOptions)))
                       [HealthChecked (address ?c),
                        Slept (grpcAttemptsDelay exampleOptions * Second)]) @
             [DeleteProcess (model exampleOptions)]"
    and w: "0 \<le> sint (grpcAttempts exampleOptions) \<and>
            0 \<le> sint (grpcAttemptsDelay exampleOptions) \<and>
            sint (grpcAttemptsDelay exampleOptions) \<le> 9223372036 \<longrightarrow>
              waited (events s') =
                waited (events ?s1) +
                sint (grpcAttempts exampleOptions) * sint (grpcAttemptsDelay exampleOptions) * 1000000000"
    and m: "models s' (model exampleOptions) = None"
    by blast
  have ev': "events s' =
           [StartProcess ''/a/backend-assets/grpc/whisper'' ''ggml-base.bin'' ''127.0.0.1:50000'' [],
            HealthChecked ''127.0.0.1:50000'', Slept 2000000000,
            HealthChecked ''127.0.0.1:50000'', Slept 2000000000,
            HealthChecked ''127.0.0.1:50000'', Slept 2000000000,
            DeleteProcess ''ggml-base.bin'']"
    unfolding ev by (simp add: exampleOptions_fields example_seconds eval_nat_numeral)
  from w have "waited (events s') = 3 * 2 * 1000000000"
    by (simp add: exampleOptions_fields example_seconds)
  with r ev' m
  show ?thesis
    by (simp add: exampleOptions_fields)
qed

text \<open>
  The time waited is not attempts times delay for every configuration: with two
  attempts and a delay of 9223372037 seconds the product with \<open>time.Second\<close> wraps to a
  negative duration, both sleeps return at once, and nothing is waited.
\<close>

theorem grpcModel_long_delay_counterexample:
  "snd (grpcModel exampleSystem ''whisper'' exampleLongDelayOptions ''ggml-base.bin''
          ''/models/ggml-base.bin'' exampleState) = Inl (Err ''grpc service not ready'') \<and>
   events (fst (grpcModel exampleSystem ''whisper'' exampleLongDelayOptions ''ggml-base.bin''
                  ''/models/ggml-base.bin'' exampleState)) =
     [StartProcess ''/a/backend-assets/grpc/whisper'' ''ggml-base.bin'' ''127.0.0.1:50000'' [],
      HealthChecked ''127.0.0.1:50000'', Slept 9223372037000000000,
      HealthChecked ''127.0.0.1:50000'', Slept 9223372037000000000,
      DeleteProcess ''ggml-base.bin''] \<and>
   sint (9223372037000000000 :: 64 word) = - 9223372036709551616 \<and>
   waited (events (fst (grpcModel exampleSystem ''whisper'' exampleLongDelayOptions ''ggml-base.bin''
                          ''/models/ggml-base.bin'' exampleState))) = 0 \<and>
   sint (grpcAttempts exampleLongDelayOptions) * sint (grpcAttemptsDelay exampleLongDelayOptions) =
     18446744074"
proof -
  have sys: "exampleSystem = exampleSystem\<lparr>HealthCheck := HealthCheck exampleSystem,
      rpcLoadModel := rpcLoadModel exampleSystem\<rparr>"
    by simp
  let ?s1 = "(setCacheEnv (ModelPath exampleSystem) exampleState)
            \<lparr>events := [StartProcess ''/a/backend-assets/grpc/whisper'' ''ggml-base.bin''
                           ''127.0.0.1:50000'' []],
             tick := 2\<rparr>"
  let ?c = "\<lparr>ID = ''ggml-base.bin'', address = ''127.0.0.1:50000'', process = Some 1\<rparr>"
  have f: "grpcAttempts exampleLongDelayOptions = 2"
    "grpcAttemptsDelay exampleLongDelayOptions = 9223372037"
    "model exampleLongDelayOptions = ''ggml-base.bin''"
    by (simp_all add: exampleLongDelayOptions_def exampleOptions_fields)
  have start: "startBackend exampleSystem ''whisper'' exampleLongDelayOptions ''ggml-base.bin''
           (setCacheEnv (ModelPath exampleSystem) exampleState) = (?s1, Inr ?c)"
    unfolding exampleLongDelayOptions_def startBackend_attempts by (rule example_start [OF sys])
  have dead: "\<forall>i < nat (sint (grpcAttempts exampleLongDelayOptions)).
      \<not> fst (HealthCheck exampleSystem (tick ?s1 + i) (address ?c))"
    by (simp add: exampleSystem_calls)
  note g = grpcModel_exhausted [OF start dead, of "''/models/ggml-base.bin''"]
  show ?thesis
    unfolding g
    by (simp add: f example_seconds deleteProcess_def eval_nat_numeral)
qed

lemma exampleLiveSystem_eq:
  "exampleLiveSystem =
     exampleSystem\<lparr>HealthCheck := (\<lambda>n a. (3 \<le> n, None)), rpcLoadModel := rpcLoadModel exampleSystem\<rparr>"
  "exampleRefusingSystem =
     exampleSystem\<lparr>HealthCheck := (\<lambda>n a. (3 \<le> n, None)),
       rpcLoadModel := (\<lambda>n a opts. Inr \<lparr>Success = False, Message = ''unsupported model''\<rparr>)\<rparr>"
  by (simp_all add: exampleLiveSystem_def exampleRefusingSystem_def)

lemma example_ready:
  assumes h: "HealthCheck sys = (\<lambda>n a. (3 \<le> n, None))"
  shows "waitReady sys exampleOptions
           \<lparr>ID = ''ggml-base.bin'', address = ''127.0.0.1:50000'', process = Some 1\<rparr>
           (nat (sint (grpcAttempts exampleOptions)))
           (s\<lparr>events := [StartProcess ''/a/backend-assets/grpc/whisper'' ''ggml-base.bin''
                           ''127.0.0.1:50000'' []],
              tick := 2\<rparr>) =
         (s\<lparr>events := [StartProcess ''/a/backend-assets/grpc/whisper'' ''ggml-base.bin''
                           ''127.0.0.1:50000'' [],
                        HealthChecked ''127.0.0.1:50000'', Slept 2000000000,
                        HealthChecked ''127.0.0.1:50000''],
             tick := 4\<rparr>, True)"
  by (simp add: exampleOptions_fields example_seconds eval_nat_numeral healthCheckCall_def h)

text \<open>A backend that loads the model, and one that refuses.\<close>

theorem grpcModel_load_result_witness:
  "(\<exists>s'. grpcModel exampleLiveSystem ''whisper'' exampleOptions ''ggml-base.bin''
             ''/models/ggml-base.bin'' exampleState =
             (s', Inr \<lparr>ID = ''ggml-base.bin'', address = ''127.0.0.1:50000'', process = Some 1\<rparr>) \<and>
          events s' =
            [StartProcess ''/a/backend-assets/grpc/whisper'' ''ggml-base.bin'' ''127.0.0.1:50000'' [],
             HealthChecked ''127.0.0.1:50000'', Slept 2000000000,
             HealthChecked ''127.0.0.1:50000'',
             LoadModelCalled ''127.0.0.1:50000''
               \<lparr>Model = ''ggml-base.bin'', ModelFile = ''/models/ggml-base.bin'',
                F16Memory = False, LibrarySearchPath = []\<rparr>]) \<and>
   (\<exists>s'. grpcModel exampleRefusingSystem ''whisper'' exampleOptions ''ggml-base.bin''
             ''/models/ggml-base.bin'' exampleState =
             (s', Inl (Err ''could not load model (no success): unsupported model'')) \<and>
          models s' ''ggml-base.bin'' = None \<and>
          last (events s') = DeleteProcess ''ggml-base.bin'')"
proof
  let ?c = "\<lparr>ID = ''ggml-base.bin'', address = ''127.0.0.1:50000'', process = Some 1\<rparr>"
  have h: "HealthCheck exampleLiveSystem = (\<lambda>n a. (3 \<le> n, None))"
    by (simp add: exampleLiveSystem_def)
  have r: "rpcLoadModel exampleLiveSystem n a opts = Inr \<lparr>Success = True, Message = []\<rparr>" for n a opts
    by (simp add: exampleLiveSystem_def exampleSystem_calls)
  have hp: "heap (setCacheEnv mp exampleState) 0 =
            \<lparr>Model = [], ModelFile = [], F16Memory = False, LibrarySearchPath = []\<rparr>" for mp
    by (simp add: setCacheEnv_fields exampleState_def)
  from grpcModel_load_result [OF example_start [OF exampleLiveSystem_eq(1)] example_ready [OF h],
      of "''/models/ggml-base.bin''"]
  show "\<exists>s'. grpcModel exampleLiveSystem ''whisper'' exampleOptions ''ggml-base.bin''
             ''/models/ggml-base.bin'' exampleState = (s', Inr ?c) \<and>
          events s' =
            [StartProcess ''/a/backend-assets/grpc/whisper'' ''ggml-base.bin'' ''127.0.0.1:50000'' [],
             HealthChecked ''127.0.0.1:50000'', Slept 2000000000,
             HealthChecked ''127.0.0.1:50000'',
             LoadModelCalled ''127.0.0.1:50000''
               \<lparr>Model = ''ggml-base.bin'', ModelFile = ''/models/ggml-base.bin'',
                F16Memory = False, LibrarySearchPath = []\<rparr>]"
    by (auto simp: r exampleOptions_fields hp)
next
  have h: "HealthCheck exampleRefusingSystem = (\<lambda>n a. (3 \<le> n, None))"
    by (simp add: exampleRefusingSystem_def exampleLiveSystem_def)
  have r: "rpcLoadModel exampleRefusingSystem n a opts =
             Inr \<lparr>Success = False, Message = ''unsupported model''\<rparr>" for n a opts
    by (simp add: exampleRefusingSystem_def)
  from grpcModel_load_result [OF example_start [OF exampleLiveSystem_eq(2)] example_ready [OF h],
      of "''/models/ggml-base.bin''"]
  show "\<exists>s'. grpcModel exampleRefusingSystem ''whisper'' exampleOptions ''ggml-base.bin''
             ''/models/ggml-base.bin'' exampleState =
             (s', Inl (Err ''could not load model (no success): unsupported model'')) \<and>
          models s' ''ggml-base.bin'' = None \<and>
          last (events s') = DeleteProcess ''ggml-base.bin''"
    by (auto simp: r exampleOptions_fields)
qed

text \<open>A rejected path, and a backend that is not installed.\<close>

theorem grpcModel_path_checks_witness:
  "grpcModel exampleStrictSystem ''whisper'' exampleOptions ''ggml-base.bin''
     ''/models/ggml-base.bin'' exampleState =
     (setCacheEnv ''/models'' exampleState,
      Inl (Err ''refering to a backend not in asset dir: path is outside of trusted root'')) \<and>
   grpcModel exampleSystem ''piper'' exampleOptions ''ggml-base.bin''
     ''/models/ggml-base.bin'' exampleState =
     (setCacheEnv ''/models'' exampleState,
      Inl (Err ''backend not found: /a/backend-assets/grpc/piper'')) \<and>
   events (setCacheEnv ''/models'' exampleState) = [] \<and>
   tick (setCacheEnv ''/models'' exampleState) = 0"
proof -
  have e: "map_of (externalBackends exampleOptions) b = None" for b
    by (simp add: exampleOptions_fields)
  have v: "VerifyPath exampleStrictSystem p d = Some (Err ''path is outside of trusted root'')" for p d
    by (simp add: exampleStrictSystem_def)
  have mp: "ModelPath exampleStrictSystem = ''/models''"
    by (simp add: exampleStrictSystem_def exampleSystem_calls)
  have rp: "resolvedProcess exampleSystem exampleOptions ''piper'' s = ''/a/backend-assets/grpc/piper''" for s
    by (simp add: resolvedProcess_def selectGRPCProcess_def LLamaCPP_def exampleOptions_fields
        example_whisper_path)
  from grpcModel_path_checks [OF e, of exampleStrictSystem "''whisper''"
      "Err ''path is outside of trusted root''" "''ggml-base.bin''" "''/models/ggml-base.bin''" exampleState]
  have c1: "grpcModel exampleStrictSystem ''whisper'' exampleOptions ''ggml-base.bin''
     ''/models/ggml-base.bin'' exampleState =
     (setCacheEnv ''/models'' exampleState,
      Inl (Err ''refering to a backend not in asset dir: path is outside of trusted root''))"
    by (simp add: v mp)
  from grpcModel_path_checks [OF e, of exampleSystem "''piper''" "Err []"
      "''ggml-base.bin''" "''/models/ggml-base.bin''" exampleState]
  have c2: "grpcModel exampleSystem ''piper'' exampleOptions ''ggml-base.bin''
     ''/models/ggml-base.bin'' exampleState =
     (setCacheEnv ''/models'' exampleState,
      Inl (Err ''backend not found: /a/backend-assets/grpc/piper''))"
    by (simp add: rp exampleSystem_calls)
  from c1 c2 show ?thesis
    by (simp add: setCacheEnv_fields exampleState_fields)
qed

section \<open>Properties of BackendLoader\<close>





lemma resolveBackend_table:
  "resolveBackend sys b =
     (let l = ToLower (unicodeLower sys) b in
      if l = ''go-llama'' \<or> l = ''llama'' then LLamaCPP
      else if l = ''embedded-store'' then LocalStoreBackend
      else if l = ''langchain-huggingface'' then LCHuggingFaceBackend
      else l)"
  by (simp add: resolveBackend_def Aliases_def Let_def)








lemma example_lower:
  "ToLower f ''Go-Llama'' = ''go-llama''" "ToLower f ''LLAMA'' = ''llama''"
  "ToLower f ''WHISPER'' = ''whisper''" "ToLower f ''whisper'' = ''whisper''"
  "ToLower f ''llama-cpp'' = ''llama-cpp''"
  by code_simp+


section \<open>Properties of GreedyLoader\<close>

subsection \<open>A model that is loaded already\<close>

text \<open>
  C8. For a model that the registry holds, \<open>GreedyLoader\<close> returns the client of the
  handle and leaves the state as it is: nothing is started and nothing is evicted, also
  when only one backend may be active.
\<close>

theorem GreedyLoader_already_loaded:
  assumes "models s (model opt) = Some m"
  shows "GreedyLoader sys opt s = (s, Return (Some (GRPC m (parallelRequests opt)), None)) \<and>
         GreedyLoader sys (opt\<lparr>singleActiveBackend := True\<rparr>) s =
           (s, Return (Some (GRPC m (parallelRequests opt)), None))"
  using assms by (simp add: GreedyLoader_def CheckIsLoaded_def)

text \<open>With one active backend only, the other model stays registered.\<close>

theorem GreedyLoader_already_loaded_witness:
  "models exampleLoadedState ''other.bin'' \<noteq> None \<and>
   GreedyLoader exampleSystem (exampleOptions\<lparr>singleActiveBackend := True\<rparr>) exampleLoadedState =
     (exampleLoadedState, Return (Some (Client ''127.0.0.1:50000'' False), None))"
proof -
  have m: "models exampleLoadedState (model exampleOptions) =
             Some \<lparr>ID = ''ggml-base.bin'', address = ''127.0.0.1:50000'', process = Some 1\<rparr>"
    by (simp add: exampleLoadedState_def exampleOptions_fields)
  from GreedyLoader_already_loaded [OF m, of exampleSystem]
  show ?thesis
    by (simp add: GRPC_def exampleOptions_fields exampleLoadedState_def)
qed

subsection \<open>The retry of \<open>llama-cpp\<close>\<close>

lemma errorsJoin_Some: "errorsJoin [err, Some e] \<noteq> None"
  by (cases err) (simp_all add: errorsJoin_def List.map_filter_simps)

lemma NewOptions_retry:
  "NewOptions sys (opts @ [WithBackendString v]) = (NewOptions sys opts)\<lparr>backendString := v\<rparr>"
  by (simp add: NewOptions_def WithBackendString_def)

lemma greedyLoop_fail:
  assumes fail: "BackendLoader sys (NewOptions sys (candidateOptions opt key)) s = (s1, (m1, Some e1))"
  shows "greedyLoop sys opt (key # rest) err s =
           (let err1 = errorsJoin [err, Some (Wrapf (''['' @ key @ '']: '') e1)] in
            if autoDetect sys \<and> key = LLamaCPP then
              (case chooseFallback sys (assetDir opt) of
                 Continue \<Rightarrow> greedyLoop sys opt rest err1 s1
               | RetryWith backendToUse \<Rightarrow>
                   thenRest sys opt rest err1 key
                     (BackendLoader sys
                        ((NewOptions sys (candidateOptions opt key))\<lparr>backendString := backendToUse\<rparr>) s1))
            else greedyLoop sys opt rest err1 s1)"
  by (cases m1)
    (simp_all add: fail Let_def errorsJoin_Some NewOptions_retry thenRest_def
      split: retry.splits prod.splits option.splits)

text \<open>
  C5, as the code has it. With auto-detection, when the load of the candidate
  \<open>llama-cpp\<close> fails with an error, the variant of the one retry follows the CPU: with
  AVX2 and the AVX2 file present \<open>BackendLoader\<close> is called once more with the same
  options and the backend \<open>llama-cpp-avx2\<close>; with neither AVX2 nor AVX and the fallback
  file present, with the backend \<open>llama-cpp-fallback\<close>; with neither AVX2 nor AVX and no
  fallback file there is no retry, no error is added, and the loop goes on with the
  next candidate.
\<close>

theorem greedyLoop_llamaCPP_retry:
  assumes ad: "autoDetect sys"
    and fail: "BackendLoader sys (NewOptions sys (candidateOptions opt LLamaCPP)) s = (s1, (m1, Some e1))"
  shows "(HasAVX2 sys \<and> Stat sys (backendPath (assetDir opt) LLamaCPPAVX2) = StatOk \<longrightarrow>
            greedyLoop sys opt (LLamaCPP # rest) err s =
              thenRest sys opt rest (errorsJoin [err, Some (Wrapf (''['' @ LLamaCPP @ '']: '') e1)]) LLamaCPP
                (BackendLoader sys
                   ((NewOptions sys (candidateOptions opt LLamaCPP))\<lparr>backendString := LLamaCPPAVX2\<rparr>) s1)) \<and>
         (\<not> HasAVX2 sys \<and> \<not> HasAVX sys \<and>
          Stat sys (backendPath (assetDir opt) LLamaCPPFallback) = StatOk \<longrightarrow>
            greedyLoop sys opt (LLamaCPP # rest) err s =
              thenRest sys opt rest (errorsJoin [err, Some (Wrapf (''['' @ LLamaCPP @ '']: '') e1)]) LLamaCPP
                (BackendLoader sys
                   ((NewOptions sys (candidateOptions opt LLamaCPP))\<lparr>backendString := LLamaCPPFallback\<rparr>) s1)) \<and>
         (\<not> HasAVX2 sys \<and> \<not> HasAVX sys \<and>
          Stat sys (backendPath (assetDir opt) LLamaCPPFallback) \<noteq> StatOk \<longrightarrow>
            greedyLoop sys opt (LLamaCPP # rest) err s =
              greedyLoop sys opt rest (errorsJoin [err, Some (Wrapf (''['' @ LLamaCPP @ '']: '') e1)]) s1)"
  unfolding greedyLoop_fail [OF fail]
  by (simp add: ad chooseFallback_def Let_def)

subsection \<open>The retry on the example machine\<close>

lemma NewOptions_candidate:
  assumes "externalBackends opt = []"
  shows "NewOptions sys (candidateOptions opt key) =
           (defaultOptions sys)
             \<lparr>backendString := key, model := model opt, gRPCOptions := gRPCOptions opt,
              threads := threads opt, assetDir := assetDir opt\<rparr>"
  by (simp add: NewOptions_def candidateOptions_def assms WithBackendString_def WithModel_def
      WithLoadGRPCLoadModelOpts_def WithThreads_def WithAssetDir_def)

lemma BackendLoader_rejected:
  assumes v: "\<And>p d. VerifyPath sys p d = Some e"
    and x: "externalBackends opt = []"
    and one: "\<not> singleActiveBackend opt"
    and m: "models s (model opt) = None"
    and np: "resolveBackend sys (backendString opt) \<noteq> PiperBackend"
  shows "BackendLoader sys opt s =
           (setCacheEnv (ModelPath sys) s,
            (None, Some (Err (''refering to a backend not in asset dir: '' @ errorText e))))"
proof -
  have g: "grpcModel sys b opt n f s =
             (setCacheEnv (ModelPath sys) s,
              Inl (Err (''refering to a backend not in asset dir: '' @ errorText e)))" for b n f
    by (rule grpcModel_rejected) (simp_all add: x v)
  show ?thesis
    by (simp add: BackendLoader_def Let_def one np LoadModel_def CheckIsLoaded_def m g)
qed

lemma example_candidate_rejected:
  assumes d: "defaultOptions sys = exampleDefaults"
    and v: "\<And>p d. VerifyPath sys p d = Some (Err ''path is outside of trusted root'')"
    and mp: "ModelPath sys = ''/models''"
  shows "BackendLoader sys (NewOptions sys (candidateOptions exampleOptions LLamaCPP)) exampleState =
           (setCacheEnv ''/models'' exampleState,
            (None, Some (Err ''refering to a backend not in asset dir: path is outside of trusted root'')))"
proof -
  let ?o = "NewOptions sys (candidateOptions exampleOptions LLamaCPP)"
  have o: "?o = exampleDefaults
             \<lparr>backendString := LLamaCPP, model := ''ggml-base.bin'', gRPCOptions := 0,
              threads := threads exampleOptions, assetDir := ''/a''\<rparr>"
    by (simp add: NewOptions_candidate exampleOptions_fields d)
  have r: "resolveBackend sys LLamaCPP \<noteq> PiperBackend"
    by (simp add: resolveBackend_table LLamaCPP_def PiperBackend_def LocalStoreBackend_def
        LCHuggingFaceBackend_def example_lower Let_def)
  have "BackendLoader sys ?o exampleState =
           (setCacheEnv (ModelPath sys) exampleState,
            (None, Some (Err (''refering to a backend not in asset dir: '' @
                              errorText (Err ''path is outside of trusted root'')))))"
    by (rule BackendLoader_rejected [OF v])
      (simp_all add: o exampleDefaults_def exampleState_fields r)
  then show ?thesis by (simp add: mp)
qed

lemma exampleStrict_fields:
  "defaultOptions exampleStrictSystem = exampleDefaults"
  "VerifyPath exampleStrictSystem p d = Some (Err ''path is outside of trusted root'')"
  "ModelPath exampleStrictSystem = ''/models''"
  "autoDetect exampleStrictSystem"
  "HasAVX2 exampleStrictSystem"
  "Stat exampleStrictSystem ''/a/backend-assets/grpc/llama-cpp-avx2'' = StatOk"
  "defaultOptions exampleStrictOldCpuSystem = exampleDefaults"
  "VerifyPath exampleStrictOldCpuSystem p d = Some (Err ''path is outside of trusted root'')"
  "ModelPath exampleStrictOldCpuSystem = ''/models''"
  "autoDetect exampleStrictOldCpuSystem"
  "\<not> HasAVX2 exampleStrictOldCpuSystem"
  "\<not> HasAVX exampleStrictOldCpuSystem"
  "Stat exampleStrictOldCpuSystem ''/a/backend-assets/grpc/llama-cpp-fallback'' = StatOk"
  "defaultOptions exampleStrictBareSystem = exampleDefaults"
  "VerifyPath exampleStrictBareSystem p d = Some (Err ''path is outside of trusted root'')"
  "ModelPath exampleStrictBareSystem = ''/models''"
  "autoDetect exampleStrictBareSystem"
  "\<not> HasAVX2 exampleStrictBareSystem"
  "\<not> HasAVX exampleStrictBareSystem"
  "Stat exampleStrictBareSystem p = StatNotExist"
  by (simp_all add: exampleStrictSystem_def exampleStrictOldCpuSystem_def
      exampleStrictBareSystem_def exampleSystem_def exampleDir_def)

text \<open>
  Every load is rejected by the path check: with AVX2 the retry asks for
  \<open>llama-cpp-avx2\<close>, without AVX2 and AVX for \<open>llama-cpp-fallback\<close>, and with no fallback
  file the only error is the one of \<open>llama-cpp\<close>.
\<close>

theorem greedyLoop_llamaCPP_retry_witness:
  "greedyLoop exampleStrictSystem exampleOptions [LLamaCPP] None exampleState =
     thenRest exampleStrictSystem exampleOptions []
       (errorsJoin [None, Some (Wrapf (''['' @ LLamaCPP @ '']: '')
          (Err ''refering to a backend not in asset dir: path is outside of trusted root''))])
       LLamaCPP
       (BackendLoader exampleStrictSystem
          ((NewOptions exampleStrictSystem (candidateOptions exampleOptions LLamaCPP))
             \<lparr>backendString := LLamaCPPAVX2\<rparr>)
          (setCacheEnv ''/models'' exampleState)) \<and>
   greedyLoop exampleStrictOldCpuSystem exampleOptions [LLamaCPP] None exampleState =
     thenRest exampleStrictOldCpuSystem exampleOptions []
       (errorsJoin [None, Some (Wrapf (''['' @ LLamaCPP @ '']: '')
          (Err ''refering to a backend not in asset dir: path is outside of trusted root''))])
       LLamaCPP
       (BackendLoader exampleStrictOldCpuSystem
          ((NewOptions exampleStrictOldCpuSystem (candidateOptions exampleOptions LLamaCPP))
             \<lparr>backendString := LLamaCPPFallback\<rparr>)
          (setCacheEnv ''/models'' exampleState)) \<and>
   greedyLoop exampleStrictBareSystem exampleOptions [LLamaCPP] None exampleState =
     (setCacheEnv ''/models'' exampleState,
      Return (None, Some (Err (''could not load model - all backends returned error: '' @
        ''[llama-cpp]: refering to a backend not in asset dir: path is outside of trusted root''))))"
proof (intro conjI)
  note f1 = example_candidate_rejected [of exampleStrictSystem, OF exampleStrict_fields(1-3)]
  from greedyLoop_llamaCPP_retry [OF exampleStrict_fields(4) f1, of "[]" None]
  show "greedyLoop exampleStrictSystem exampleOptions [LLamaCPP] None exampleState =
     thenRest exampleStrictSystem exampleOptions []
       (errorsJoin [None, Some (Wrapf (''['' @ LLamaCPP @ '']: '')
          (Err ''refering to a backend not in asset dir: path is outside of trusted root''))])
       LLamaCPP
       (BackendLoader exampleStrictSystem
          ((NewOptions exampleStrictSystem (candidateOptions exampleOptions LLamaCPP))
             \<lparr>backendString := LLamaCPPAVX2\<rparr>)
          (setCacheEnv ''/models'' exampleState))"
    by (simp add: exampleStrict_fields exampleOptions_fields example_paths)
next
  note f2 = example_candidate_rejected [of exampleStrictOldCpuSystem, OF exampleStrict_fields(7-9)]
  from greedyLoop_llamaCPP_retry [OF exampleStrict_fields(10) f2, of "[]" None]
  show "greedyLoop exampleStrictOldCpuSystem exampleOptions [LLamaCPP] None exampleState =
     thenRest exampleStrictOldCpuSystem exampleOptions []
       (errorsJoin [None, Some (Wrapf (''['' @ LLamaCPP @ '']: '')
          (Err ''refering to a backend not in asset dir: path is outside of trusted root''))])
       LLamaCPP
       (BackendLoader exampleStrictOldCpuSystem
          ((NewOptions exampleStrictOldCpuSystem (candidateOptions exampleOptions LLamaCPP))
             \<lparr>backendString := LLamaCPPFallback\<rparr>)
          (setCacheEnv ''/models'' exampleState))"
    by (simp add: exampleStrict_fields exampleOptions_fields example_paths)
next
  note f3 = example_candidate_rejected [of exampleStrictBareSystem, OF exampleStrict_fields(14-16)]
  from greedyLoop_llamaCPP_retry [OF exampleStrict_fields(17) f3, of "[]" None]
  show "greedyLoop exampleStrictBareSystem exampleOptions [LLamaCPP] None exampleState =
     (setCacheEnv ''/models'' exampleState,
      Return (None, Some (Err (''could not load model - all backends returned error: '' @
        ''[llama-cpp]: refering to a backend not in asset dir: path is outside of trusted root''))))"
    by (simp add: exampleStrict_fields errorsJoin_def List.map_filter_simps LLamaCPP_def)
qed

lemma exampleOldCpu_fields:
  "\<not> HasAVX2 exampleOldCpuSystem" "\<not> HasAVX exampleOldCpuSystem"
  "Stat exampleOldCpuSystem ''/a/backend-assets/grpc/llama-cpp-avx2'' = StatOk"
  "Stat exampleOldCpuSystem ''/a/backend-assets/grpc/llama-cpp-fallback'' = StatOk"
  by (simp_all add: exampleOldCpuSystem_def exampleSystem_def exampleDir_def)

text \<open>
  The variant of the retry is not the first of AVX2, AVX, fallback whose file is
  present: on a CPU with neither AVX2 nor AVX, with the AVX2 file and the fallback file
  present, the choice is the fallback.
\<close>

theorem chooseFallback_first_present_counterexample:
  "Stat exampleOldCpuSystem (backendPath ''/a'' LLamaCPPAVX2) = StatOk \<and>
   claimedRetryVariant exampleOldCpuSystem ''/a'' = Some LLamaCPPAVX2 \<and>
   chooseFallback exampleOldCpuSystem ''/a'' = RetryWith LLamaCPPFallback \<and>
   LLamaCPPFallback \<noteq> LLamaCPPAVX2"
  by (simp add: claimedRetryVariant_def chooseFallback_def example_paths exampleOldCpu_fields)
    (simp add: backend_names)

subsection \<open>No candidate at all\<close>

lemma exampleEmpty_fields:
  "ReadDir exampleEmptySystem p =
     Inr [\<lparr>Name = ''local-store'', IsDir = False\<rparr>, \<lparr>Name = ''python'', IsDir = True\<rparr>]"
  "autoDetect exampleEmptySystem"
  "rangeOrder exampleEmptySystem = rev"
  by (simp_all add: exampleEmptySystem_def exampleSystem_def)

lemma exampleEmpty_discover:
  "discover True [\<lparr>Name = ''local-store'', IsDir = False\<rparr>, \<lparr>Name = ''python'', IsDir = True\<rparr>] = []"
  by code_simp

text \<open>
  C4, where the code departs from it. With an empty candidate list the loop joins no
  error, and the statement after the loop calls \<open>Error()\<close> on the \<open>nil\<close> error:
  \<open>GreedyLoader\<close> panics instead of returning an error.
\<close>

theorem GreedyLoader_no_candidates_panics:
  "backendsInAssetDir exampleEmptySystem (assetDir exampleOptions) = Inr [] \<and>
   externalBackends exampleOptions = [] \<and>
   GreedyLoader exampleEmptySystem exampleOptions exampleState = (exampleState, Panic)"
proof -
  have b: "backendsInAssetDir exampleEmptySystem ''/a'' = Inr []"
    by (simp add: backendsInAssetDir_def exampleEmpty_fields exampleEmpty_discover
        orderBackends_def addPresent_def priorityList_def toTheEnd_def)
  show ?thesis
    by (simp add: GreedyLoader_def CheckIsLoaded_def exampleState_fields exampleOptions_fields b)
qed

end
